theory Spec2Isabelle
  imports Complex_Main
begin

section \<open>Buying versus renting: the financial core of the dashboard page\<close>

text \<open>
  The page defines three closed-form functions (\<open>monthly_mortgage_payment\<close>,
  \<open>fv_lump_sum\<close>, \<open>fv_monthly_annuity\<close>), combines them in
  \<open>buy_vs_rent_wealth\<close>, and fills three sensitivity tables by nested loops.

  The functions are embedded twice. First over the real numbers, as the formulas read
  in exact arithmetic: there a true division by zero, and zero raised to a negative
  integer power, raise \<open>ZeroDivisionError\<close>, and nothing else can go wrong. Then
  over an arbitrary float arithmetic, given as a record of operations, with the exact
  arithmetic and IEEE double precision as two instances: what holds for every
  arithmetic holds for the code as it runs, and the double instance shows what
  rounding does to the formulas. The loan term is a Python \<open>int\<close>.
\<close>

subsection \<open>Errors, and the exact operations that can raise\<close>

text \<open>
  \<open>py_truediv\<close> and \<open>py_pow\<close> are \<open>/\<close> and \<open>**\<close> on real numbers: nothing is
  rounded and nothing overflows, so \<open>OverflowError\<close> does not arise from them. The
  operations on doubles are \<open>ddiv\<close> and \<open>dpow\<close> below.
\<close>

datatype error = ZeroDivisionError | OverflowError

definition py_then :: "error + 'a \<Rightarrow> ('a \<Rightarrow> error + 'b) \<Rightarrow> error + 'b" where
  "py_then m f = (case m of Inl e \<Rightarrow> Inl e | Inr v \<Rightarrow> f v)"

definition py_truediv :: "real \<Rightarrow> real \<Rightarrow> error + real" where
  "py_truediv a b = (if b = 0 then Inl ZeroDivisionError else Inr (a / b))"

definition py_pow :: "real \<Rightarrow> int \<Rightarrow> error + real" where
  "py_pow b n =
     (if 0 \<le> n then Inr (b ^ nat n)
      else if b = 0 then Inl ZeroDivisionError
      else Inr (1 / b ^ nat (- n)))"

subsection \<open>Core financial functions, over the real numbers\<close>

text \<open>
  The four functions as their formulas read in exact arithmetic. They are the instance
  \<open>exact_arith\<close> of the functions over an arbitrary float arithmetic further down,
  and are used where a statement is about the values of the formulas.
\<close>

text \<open>
  \<^verbatim>\<open>
  def monthly_mortgage_payment(principal, annual_rate, years):
      r = annual_rate / 12.0
      n = years * 12
      if annual_rate == 0:
          return principal / n
      return principal * (r * (1 + r) ** n) / ((1 + r) ** n - 1)
  \<close>
\<close>

definition monthly_mortgage_payment :: "real \<Rightarrow> real \<Rightarrow> int \<Rightarrow> error + real" where
  "monthly_mortgage_payment princ annual_rate years =
     py_then (py_truediv annual_rate 12) (\<lambda>r.
       let n = years * 12 in
       if annual_rate = 0 then py_truediv princ (real_of_int n)
       else py_then (py_pow (1 + r) n) (\<lambda>p1.
            py_then (py_pow (1 + r) n) (\<lambda>p2.
              py_truediv (princ * (r * p1)) (p2 - 1))))"

text \<open>
  \<^verbatim>\<open>
  def fv_lump_sum(pv, annual_rate, years):
      return pv * ((1 + annual_rate) ** years)
  \<close>
\<close>

definition fv_lump_sum :: "real \<Rightarrow> real \<Rightarrow> int \<Rightarrow> error + real" where
  "fv_lump_sum pv annual_rate years =
     py_then (py_pow (1 + annual_rate) years) (\<lambda>p. Inr (pv * p))"

text \<open>
  \<^verbatim>\<open>
  def fv_monthly_annuity(pmt, annual_rate, years):
      r = annual_rate / 12.0
      n = years * 12
      if annual_rate == 0:
          return pmt * n
      return pmt * (((1 + r) ** n - 1) / r)
  \<close>
\<close>

definition fv_monthly_annuity :: "real \<Rightarrow> real \<Rightarrow> int \<Rightarrow> error + real" where
  "fv_monthly_annuity pmt annual_rate years =
     py_then (py_truediv annual_rate 12) (\<lambda>r.
       let n = years * 12 in
       if annual_rate = 0 then Inr (pmt * real_of_int n)
       else py_then (py_pow (1 + r) n) (\<lambda>p.
            py_then (py_truediv (p - 1) r) (\<lambda>q. Inr (pmt * q))))"

text \<open>
  \<^verbatim>\<open>
  def buy_vs_rent_wealth(house_price, down_pct, mortgage_rate, term_years,
                         rent_yield, invest_return, home_appreciation):
      loan = house_price * (1 - down_pct)
      down = house_price * down_pct
      m_mort = monthly_mortgage_payment(loan, mortgage_rate, term_years)
      monthly_rent = (house_price * rent_yield) / 12.0
      monthly_contribution = m_mort - monthly_rent
      buy_wealth = fv_lump_sum(house_price, home_appreciation, term_years)
      rent_wealth = fv_lump_sum(down, invest_return, term_years)
                    + fv_monthly_annuity(monthly_contribution, invest_return, term_years)
      diff = buy_wealth - rent_wealth
      return buy_wealth, rent_wealth, diff
  \<close>
  The result is the triple \<open>(buy_wealth, rent_wealth, diff)\<close>.
\<close>

definition buy_vs_rent_wealth ::
  "real \<Rightarrow> real \<Rightarrow> real \<Rightarrow> int \<Rightarrow> real \<Rightarrow> real \<Rightarrow> real \<Rightarrow> error + (real \<times> real \<times> real)" where
  "buy_vs_rent_wealth hprice dpct mrate tyears ryield ireturn happr =
     (let loan = hprice * (1 - dpct);
          down = hprice * dpct
      in py_then (monthly_mortgage_payment loan mrate tyears) (\<lambda>m_mort.
         py_then (py_truediv (hprice * ryield) 12) (\<lambda>monthly_rent.
         let monthly_contribution = m_mort - monthly_rent in
         py_then (fv_lump_sum hprice happr tyears) (\<lambda>buy_wealth.
         py_then (fv_lump_sum down ireturn tyears) (\<lambda>fv_down.
         py_then (fv_monthly_annuity monthly_contribution ireturn tyears) (\<lambda>fv_contrib.
         let rent_wealth = fv_down + fv_contrib;
             diff = buy_wealth - rent_wealth
         in Inr (buy_wealth, rent_wealth, diff)))))))"

subsection \<open>The sidebar inputs\<close>

text \<open>
  The module-level variables set from the sidebar widgets. \<open>house_price\<close> comes from an
  integer number input and is used only in float arithmetic; \<open>term_years\<close> is an
  integer slider.
\<close>

record sidebar =
  house_price :: real
  down_pct :: real
  mortgage_rate :: real
  term_years :: int
  rent_yield :: real
  invest_return :: real
  home_appreciation :: real

text \<open>
  The base case of the page:
  \<^verbatim>\<open>
  buy_wealth, rent_wealth, diff = buy_vs_rent_wealth(house_price=house_price, ...)
  \<close>
\<close>

definition base_case :: "sidebar \<Rightarrow> error + (real \<times> real \<times> real)" where
  "base_case s =
     buy_vs_rent_wealth (house_price s) (down_pct s) (mortgage_rate s) (term_years s)
       (rent_yield s) (invest_return s) (home_appreciation s)"

text \<open>
  The values the widgets can deliver:
  \<^verbatim>\<open>
  house_price = st.sidebar.number_input(..., min_value=100000, max_value=5_000_000, ...)
  down_pct = st.sidebar.slider("Down Payment (%)", 0.0, 0.9, 0.10, 0.01)
  mortgage_rate = st.sidebar.slider("Mortgage Rate (%)", 0.0, 10.0, 4.0, 0.1) / 100.0
  term_years = st.sidebar.slider("Loan Term (years)", 5, 40, 30, 1)
  rent_yield = st.sidebar.slider(..., 0.0, 10.0, 4.5, 0.1) / 100.0
  invest_return = st.sidebar.slider("Investment Return (%)", 0.0, 15.0, 6.0, 0.1) / 100.0
  home_appreciation = st.sidebar.slider("Home Appreciation (%)", 0.0, 10.0, 2.0, 0.1) / 100.0
  \<close>
  A slider value is the minimum or at least one step above it; of the steps only this
  is kept: a fraction or rate is \<open>0\<close> or at least one step.
\<close>

definition sidebar_values :: "sidebar \<Rightarrow> bool" where
  "sidebar_values s \<longleftrightarrow>
     100000 \<le> house_price s \<and> house_price s \<le> 5000000 \<and>
     (down_pct s = 0 \<or> 1 / 100 \<le> down_pct s) \<and> down_pct s \<le> 9 / 10 \<and>
     (mortgage_rate s = 0 \<or> 1 / 1000 \<le> mortgage_rate s) \<and> mortgage_rate s \<le> 1 / 10 \<and>
     5 \<le> term_years s \<and> term_years s \<le> 40 \<and>
     (rent_yield s = 0 \<or> 1 / 1000 \<le> rent_yield s) \<and> rent_yield s \<le> 1 / 10 \<and>
     (invest_return s = 0 \<or> 1 / 1000 \<le> invest_return s) \<and> invest_return s \<le> 15 / 100 \<and>
     (home_appreciation s = 0 \<or> 1 / 1000 \<le> home_appreciation s) \<and>
     home_appreciation s \<le> 1 / 10"

subsection \<open>Formatting a table cell\<close>

text \<open>
  \<^verbatim>\<open>
  def format_rm(val):
      return f"RM {val:,.0f}"
  \<close>
  The format \<open>,.0f\<close> rounds to the nearest integer, ties to the even one, keeps the
  sign of a negative value (also when it rounds to zero) and groups the digits in
  threes with commas.
\<close>

definition round_half_even :: "real \<Rightarrow> int" where
  "round_half_even x =
     (let f = \<lfloor>x\<rfloor>; d = x - of_int f
      in if d < 1 / 2 then f else if 1 / 2 < d then f + 1
         else if even f then f else f + 1)"

definition digit_char :: "nat \<Rightarrow> char" where
  "digit_char d = ''0123456789'' ! d"

fun str_nat :: "nat \<Rightarrow> string" where
  "str_nat n = (if n < 10 then [digit_char n] else str_nat (n div 10) @ [digit_char (n mod 10)])"

declare str_nat.simps [simp del]

fun commas_rev :: "string \<Rightarrow> string" where
  "commas_rev (a # b # c # d # rest) = a # b # c # CHR '','' # commas_rev (d # rest)"
| "commas_rev ds = ds"

definition thousands :: "string \<Rightarrow> string" where
  "thousands ds = rev (commas_rev (rev ds))"

definition format_rm :: "real \<Rightarrow> string" where
  "format_rm val =
     ''RM '' @ (if val < 0 then ''-'' else '''') @ thousands (str_nat (nat (round_half_even \<bar>val\<bar>)))"

subsection \<open>The sensitivity tables\<close>

text \<open>
  \<^verbatim>\<open>
  mr_grid = np.arange(0.03, 0.0601, 0.005)
  ir_grid = np.arange(0.04, 0.1001, 0.01)
  ap_grid = np.arange(0.00, 0.0501, 0.005)
  ry_grid = np.arange(0.03, 0.0601, 0.005)
  \<close>
  \<open>np.arange(start, stop, step)\<close> has \<open>ceil((stop - start) / step)\<close> elements
  \<open>start + i * step\<close>.
\<close>

definition arange :: "real \<Rightarrow> real \<Rightarrow> real \<Rightarrow> real list" where
  "arange start stop step =
     map (\<lambda>i. start + real i * step) [0 ..< nat \<lceil>(stop - start) / step\<rceil>]"

definition mr_grid :: "real list" where
  "mr_grid = arange (3 / 100) (601 / 10000) (5 / 1000)"

definition ir_grid :: "real list" where
  "ir_grid = arange (4 / 100) (1001 / 10000) (1 / 100)"

definition ap_grid :: "real list" where
  "ap_grid = arange 0 (501 / 10000) (5 / 1000)"

definition ry_grid :: "real list" where
  "ry_grid = arange (3 / 100) (601 / 10000) (5 / 1000)"

text \<open>
  Each table is filled by the same nested loop; only the call in the body differs:
  \<^verbatim>\<open>
  data_A = []
  for ir in ir_grid:
      row = []
      for mr in mr_grid:
          _, _, d = buy_vs_rent_wealth(house_price=house_price, down_pct=down_pct,
              mortgage_rate=mr, term_years=term_years, rent_yield=rent_yield,
              invest_return=ir, home_appreciation=home_appreciation)
          row.append(format_rm(d))
      data_A.append(row)
  \<close>
  \<open>fill_row\<close> is the inner loop and \<open>fill_table\<close> the outer one, with the call as
  the parameter \<open>f\<close>; an exception in any call ends the whole loop. The axis values
  are parameters of \<open>data_A_on\<close>, \<open>data_B_on\<close> and \<open>data_C_on\<close>; \<open>data_A\<close>,
  \<open>data_B\<close> and \<open>data_C\<close> are the tables on the grids of the page.

  The axis values of the page are NumPy scalars, for which a division by zero gives
  an infinity or a NaN instead of raising. With a positive term and mortgage rates
  that are not negative no division by zero arises, and the difference does not
  matter; the statements about the tables are made under these conditions.
\<close>

fun fill_row :: "('c \<Rightarrow> error + (real \<times> real \<times> real)) \<Rightarrow> 'c list \<Rightarrow> error + string list" where
  "fill_row f [] = Inr []"
| "fill_row f (x # xs) =
     py_then (f x) (\<lambda>(_, _, d).
     py_then (fill_row f xs) (\<lambda>row. Inr (format_rm d # row)))"

fun fill_table ::
  "('r \<Rightarrow> 'c \<Rightarrow> error + (real \<times> real \<times> real)) \<Rightarrow> 'r list \<Rightarrow> 'c list
   \<Rightarrow> error + string list list" where
  "fill_table f [] cols = Inr []"
| "fill_table f (r # rs) cols =
     py_then (fill_row (f r) cols) (\<lambda>row.
     py_then (fill_table f rs cols) (\<lambda>rows. Inr (row # rows)))"

definition cell_A :: "sidebar \<Rightarrow> real \<Rightarrow> real \<Rightarrow> error + (real \<times> real \<times> real)" where
  "cell_A s = (\<lambda>ir mr.
     buy_vs_rent_wealth (house_price s) (down_pct s) mr (term_years s)
       (rent_yield s) ir (home_appreciation s))"

definition cell_B :: "sidebar \<Rightarrow> real \<Rightarrow> real \<Rightarrow> error + (real \<times> real \<times> real)" where
  "cell_B s = (\<lambda>ir ap.
     buy_vs_rent_wealth (house_price s) (down_pct s) (mortgage_rate s) (term_years s)
       (rent_yield s) ir ap)"

definition cell_C :: "sidebar \<Rightarrow> real \<Rightarrow> real \<Rightarrow> error + (real \<times> real \<times> real)" where
  "cell_C s = (\<lambda>mr ry.
     buy_vs_rent_wealth (house_price s) (down_pct s) mr (term_years s)
       ry (invest_return s) (home_appreciation s))"

definition data_A_on :: "sidebar \<Rightarrow> real list \<Rightarrow> real list \<Rightarrow> error + string list list" where
  "data_A_on s irs mrs = fill_table (cell_A s) irs mrs"

definition data_B_on :: "sidebar \<Rightarrow> real list \<Rightarrow> real list \<Rightarrow> error + string list list" where
  "data_B_on s irs aps = fill_table (cell_B s) irs aps"

definition data_C_on :: "sidebar \<Rightarrow> real list \<Rightarrow> real list \<Rightarrow> error + string list list" where
  "data_C_on s mrs rys = fill_table (cell_C s) mrs rys"

definition data_A :: "sidebar \<Rightarrow> error + string list list" where
  "data_A s = data_A_on s ir_grid mr_grid"

definition data_B :: "sidebar \<Rightarrow> error + string list list" where
  "data_B s = data_B_on s ir_grid ap_grid"

definition data_C :: "sidebar \<Rightarrow> error + string list list" where
  "data_C s = data_C_on s mr_grid ry_grid"

subsection \<open>The core functions in an arbitrary float arithmetic\<close>

text \<open>
  The operations the four functions use: \<open>+\<close>, \<open>-\<close> and \<open>*\<close> on floats never raise;
  \<open>/\<close> raises \<open>ZeroDivisionError\<close>; \<open>**\<close> with an \<open>int\<close> exponent raises
  \<open>ZeroDivisionError\<close> or \<open>OverflowError\<close>; an \<open>int\<close> operand of a float operation
  (\<open>principal / n\<close>, \<open>pmt * n\<close>) is converted first, which raises \<open>OverflowError\<close>
  when it is too large. \<open>fone\<close> and \<open>ftwelve\<close> are the literals \<open>1\<close> and \<open>12.0\<close>,
  and \<open>fzero\<close> is the test \<open>== 0\<close>. The parameters are floats and the years an
  \<open>int\<close>, as the annotations of the source say (\<open>principal: float\<close>,
  \<open>annual_rate: float\<close>, \<open>years: int\<close>); the definitions follow the source line
  by line, with each operator replaced by the operation of the arithmetic.
\<close>

record 'f arith =
  fadd :: "'f \<Rightarrow> 'f \<Rightarrow> 'f"
  fsub :: "'f \<Rightarrow> 'f \<Rightarrow> 'f"
  fmul :: "'f \<Rightarrow> 'f \<Rightarrow> 'f"
  fdiv :: "'f \<Rightarrow> 'f \<Rightarrow> error + 'f"
  fpow :: "'f \<Rightarrow> int \<Rightarrow> error + 'f"
  fint :: "int \<Rightarrow> error + 'f"
  fone :: 'f
  ftwelve :: 'f
  fzero :: "'f \<Rightarrow> bool"

definition monthly_mortgage_payment_in ::
  "'f arith \<Rightarrow> 'f \<Rightarrow> 'f \<Rightarrow> int \<Rightarrow> error + 'f" where
  "monthly_mortgage_payment_in A princ annual_rate years =
     py_then (fdiv A annual_rate (ftwelve A)) (\<lambda>r.
       let n = years * 12 in
       if fzero A annual_rate then py_then (fint A n) (\<lambda>nf. fdiv A princ nf)
       else py_then (fpow A (fadd A (fone A) r) n) (\<lambda>p1.
            py_then (fpow A (fadd A (fone A) r) n) (\<lambda>p2.
              fdiv A (fmul A princ (fmul A r p1)) (fsub A p2 (fone A)))))"

definition fv_lump_sum_in :: "'f arith \<Rightarrow> 'f \<Rightarrow> 'f \<Rightarrow> int \<Rightarrow> error + 'f" where
  "fv_lump_sum_in A pv annual_rate years =
     py_then (fpow A (fadd A (fone A) annual_rate) years) (\<lambda>p. Inr (fmul A pv p))"

definition fv_monthly_annuity_in :: "'f arith \<Rightarrow> 'f \<Rightarrow> 'f \<Rightarrow> int \<Rightarrow> error + 'f" where
  "fv_monthly_annuity_in A pmt annual_rate years =
     py_then (fdiv A annual_rate (ftwelve A)) (\<lambda>r.
       let n = years * 12 in
       if fzero A annual_rate then py_then (fint A n) (\<lambda>nf. Inr (fmul A pmt nf))
       else py_then (fpow A (fadd A (fone A) r) n) (\<lambda>p.
            py_then (fdiv A (fsub A p (fone A)) r) (\<lambda>q. Inr (fmul A pmt q))))"

definition buy_vs_rent_wealth_in ::
  "'f arith \<Rightarrow> 'f \<Rightarrow> 'f \<Rightarrow> 'f \<Rightarrow> int \<Rightarrow> 'f \<Rightarrow> 'f \<Rightarrow> 'f \<Rightarrow> error + ('f \<times> 'f \<times> 'f)" where
  "buy_vs_rent_wealth_in A hprice dpct mrate tyears ryield ireturn happr =
     (let loan = fmul A hprice (fsub A (fone A) dpct);
          down = fmul A hprice dpct
      in py_then (monthly_mortgage_payment_in A loan mrate tyears) (\<lambda>m_mort.
         py_then (fdiv A (fmul A hprice ryield) (ftwelve A)) (\<lambda>monthly_rent.
         let monthly_contribution = fsub A m_mort monthly_rent in
         py_then (fv_lump_sum_in A hprice happr tyears) (\<lambda>buy_wealth.
         py_then (fv_lump_sum_in A down ireturn tyears) (\<lambda>fv_down.
         py_then (fv_monthly_annuity_in A monthly_contribution ireturn tyears) (\<lambda>fv_contrib.
         let rent_wealth = fadd A fv_down fv_contrib;
             diff = fsub A buy_wealth rent_wealth
         in Inr (buy_wealth, rent_wealth, diff)))))))"

text \<open>Exact arithmetic: the operations on the real numbers.\<close>

definition exact_arith :: "real arith" where
  "exact_arith =
     \<lparr>fadd = (+), fsub = (-), fmul = (*), fdiv = py_truediv, fpow = py_pow,
      fint = (\<lambda>n. Inr (real_of_int n)), fone = 1, ftwelve = 12, fzero = (\<lambda>x. x = 0)\<rparr>"

subsection \<open>IEEE double precision\<close>

text \<open>
  A Python float is an IEEE 754 binary64 value: a finite number \<open>m * 2^q\<close> with
  \<open>\<bar>m\<bar> < 2^53\<close> and \<open>- 1074 \<le> q\<close>, of magnitude below \<open>2^1024\<close>, an infinity or
  a NaN. The two zeros are not told apart. \<open>round_to_double\<close> rounds a real number to
  the nearest double, ties to the even mantissa; a result of magnitude \<open>2^1024\<close> or
  more is an infinity.
\<close>

datatype double = Finite real | PosInf | NegInf | NaN

definition quantum :: "real \<Rightarrow> int" where
  "quantum x = (if x = 0 then - 1074 else max (\<lfloor>log 2 \<bar>x\<bar>\<rfloor> - 52) (- 1074))"

definition round_to_double :: "real \<Rightarrow> double" where
  "round_to_double x =
     (let q = quantum x;
          y = of_int (round_half_even (x / 2 powi q)) * 2 powi q
      in if 2 ^ 1024 \<le> \<bar>y\<bar> then (if 0 < y then PosInf else NegInf) else Finite y)"

fun dneg :: "double \<Rightarrow> double" where
  "dneg (Finite a) = Finite (- a)"
| "dneg PosInf = NegInf"
| "dneg NegInf = PosInf"
| "dneg NaN = NaN"

fun dadd :: "double \<Rightarrow> double \<Rightarrow> double" where
  "dadd (Finite a) (Finite b) = round_to_double (a + b)"
| "dadd NaN _ = NaN"
| "dadd _ NaN = NaN"
| "dadd PosInf NegInf = NaN"
| "dadd NegInf PosInf = NaN"
| "dadd PosInf _ = PosInf"
| "dadd NegInf _ = NegInf"
| "dadd _ PosInf = PosInf"
| "dadd _ NegInf = NegInf"

definition dsub :: "double \<Rightarrow> double \<Rightarrow> double" where
  "dsub a b = dadd a (dneg b)"

text \<open>The sign of a double that is not a NaN: \<open>- 1\<close>, \<open>0\<close> or \<open>1\<close>.\<close>

fun dsign :: "double \<Rightarrow> int" where
  "dsign (Finite a) = (if a < 0 then - 1 else if a = 0 then 0 else 1)"
| "dsign PosInf = 1"
| "dsign NegInf = - 1"
| "dsign NaN = 0"

definition signed_inf :: "int \<Rightarrow> double" where
  "signed_inf s = (if s = 0 then NaN else if 0 < s then PosInf else NegInf)"

fun dmul :: "double \<Rightarrow> double \<Rightarrow> double" where
  "dmul (Finite a) (Finite b) = round_to_double (a * b)"
| "dmul NaN _ = NaN"
| "dmul _ NaN = NaN"
| "dmul a b = signed_inf (dsign a * dsign b)"

text \<open>
  Python's float division raises whenever the divisor is zero, whatever the dividend.
\<close>

fun ddiv :: "double \<Rightarrow> double \<Rightarrow> error + double" where
  "ddiv a (Finite b) =
     (if b = 0 then Inl ZeroDivisionError
      else case a of
        Finite x \<Rightarrow> Inr (round_to_double (x / b))
      | NaN \<Rightarrow> Inr NaN
      | _ \<Rightarrow> Inr (signed_inf (dsign a * dsign (Finite b))))"
| "ddiv _ NaN = Inr NaN"
| "ddiv NaN _ = Inr NaN"
| "ddiv (Finite x) _ = Inr (Finite 0)"
| "ddiv _ _ = Inr NaN"

text \<open>An \<open>int\<close> converted to a float: rounded, \<open>OverflowError\<close> when too large.\<close>

definition dint :: "int \<Rightarrow> error + double" where
  "dint n = (case round_to_double (real_of_int n) of
               Finite w \<Rightarrow> Inr (Finite w) | _ \<Rightarrow> Inl OverflowError)"

text \<open>
  \<open>float ** int\<close>, after CPython's \<open>float_pow\<close>: the exponent is converted to a float;
  exponent \<open>0\<close> and base \<open>1.0\<close> give \<open>1.0\<close>; a NaN base gives NaN; an infinite base
  gives an infinity or a zero; base zero with a negative exponent raises
  \<open>ZeroDivisionError\<close>; otherwise the C library's \<open>pow\<close> is called, and an overflow
  of its result raises \<open>OverflowError\<close>. The library function is taken as correctly
  rounded here, which the C standard does not promise; nothing below depends on it
  except through base \<open>1.0\<close>, exponent \<open>0\<close> and base zero, which are decided before
  the library is called.
\<close>

definition dpow :: "double \<Rightarrow> int \<Rightarrow> error + double" where
  "dpow v n =
     (case round_to_double (real_of_int n) of
        Finite wr \<Rightarrow>
          (let w = \<lfloor>wr\<rfloor> in
           if w = 0 then Inr (Finite 1)
           else case v of
             NaN \<Rightarrow> Inr NaN
           | PosInf \<Rightarrow> Inr (if 0 < w then PosInf else Finite 0)
           | NegInf \<Rightarrow> Inr (if 0 < w then (if odd w then NegInf else PosInf) else Finite 0)
           | Finite x \<Rightarrow>
               if x = 0 then (if w < 0 then Inl ZeroDivisionError else Inr (Finite 0))
               else if x = 1 then Inr (Finite 1)
               else (case round_to_double (x powi w) of
                       Finite y \<Rightarrow> Inr (Finite y) | _ \<Rightarrow> Inl OverflowError))
      | _ \<Rightarrow> Inl OverflowError)"

definition double_arith :: "double arith" where
  "double_arith =
     \<lparr>fadd = dadd, fsub = dsub, fmul = dmul, fdiv = ddiv, fpow = dpow, fint = dint,
      fone = Finite 1, ftwelve = Finite 12, fzero = (\<lambda>x. x = Finite 0)\<rparr>"

subsection \<open>Sequencing\<close>

lemma py_then_Inr [simp]: "py_then (Inr v) f = f v"
  by (simp add: py_then_def)

lemma py_then_Inl [simp]: "py_then (Inl e) f = Inl e"
  by (simp add: py_then_def)

subsection \<open>Rounding to a double\<close>

text \<open>
  A number that is a double is rounded to itself; a number between \<open>1\<close> and
  \<open>1 + 2^-53\<close> is rounded to \<open>1\<close>.
\<close>

lemma round_half_even_of_int: "round_half_even (of_int n) = n"
  by (simp add: round_half_even_def)

lemma quantum_le:
  assumes "x = of_int m * 2 powi k" "\<bar>m\<bar> < 2 ^ 53" "- 1074 \<le> k"
  shows "quantum x \<le> k"
proof (cases "x = 0")
  case True
  then show ?thesis using assms by (simp add: quantum_def)
next
  case False
  have pos: "0 < \<bar>x\<bar>" using False by simp
  have "\<bar>x\<bar> = \<bar>of_int m\<bar> * 2 powi k" using assms by (simp add: abs_mult)
  also have "\<dots> < 2 ^ 53 * 2 powi k"
  proof -
    have "real_of_int \<bar>m\<bar> < real_of_int (2 ^ 53)" using assms(2) by (simp only: of_int_less_iff)
    then have "\<bar>real_of_int m\<bar> < 2 ^ 53" by simp
    moreover have "(0::real) < 2 powi k" by simp
    ultimately show ?thesis by simp
  qed
  also have "\<dots> = 2 powi (53 + k)" by (simp add: power_int_add)
  also have "\<dots> = 2 powr real_of_int (53 + k)"
    by (rule powr_real_of_int' [symmetric]) simp_all
  finally have "log 2 \<bar>x\<bar> < real_of_int (53 + k)"
    using pos by (simp add: log_less_iff)
  then have "\<lfloor>log 2 \<bar>x\<bar>\<rfloor> < 53 + k" by (simp add: floor_less_iff)
  then show ?thesis using False assms by (simp add: quantum_def)
qed

lemma round_exact:
  assumes "x = of_int m * 2 powi k" "\<bar>m\<bar> < 2 ^ 53" "- 1074 \<le> k" "\<bar>x\<bar> < 2 ^ 1024"
  shows "round_to_double x = Finite x"
proof -
  define q where "q = quantum x"
  have qk: "q \<le> k" unfolding q_def using assms(1-3) by (rule quantum_le)
  have "2 powi k / 2 powi q = (2::real) powi (k - q)" by (simp add: power_int_diff)
  also have "\<dots> = 2 ^ nat (k - q)" using qk by (simp add: power_int_def)
  finally have pq: "2 powi k / 2 powi q = (2::real) ^ nat (k - q)" .
  have "x / 2 powi q = of_int m * (2 powi k / 2 powi q)"
    using assms(1) by simp
  then have "x / 2 powi q = of_int (m * 2 ^ nat (k - q))"
    by (simp only: pq) simp
  then have "round_half_even (x / 2 powi q) = m * 2 ^ nat (k - q)"
    by (simp only: round_half_even_of_int)
  moreover have "of_int (m * 2 ^ nat (k - q)) * 2 powi q = x"
  proof -
    have "(2::real) ^ nat (k - q) * 2 powi q = 2 powi (k - q) * 2 powi q"
      using qk by (simp add: power_int_def)
    also have "\<dots> = 2 powi k" by (simp add: power_int_add [symmetric])
    finally show ?thesis using assms(1) by (simp add: mult.assoc)
  qed
  ultimately show ?thesis
    using assms(4) by (simp add: round_to_double_def q_def [symmetric] Let_def)
qed

lemma round_int:
  assumes "\<bar>n\<bar> < 2 ^ 53"
  shows "round_to_double (real_of_int n) = Finite (real_of_int n)"
proof (rule round_exact [of _ n 0])
  show "real_of_int n = real_of_int n * 2 powi 0" by simp
  show "\<bar>n\<bar> < 2 ^ 53" by (rule assms)
  show "- 1074 \<le> (0::int)" by simp
  have "real_of_int \<bar>n\<bar> < real_of_int (2 ^ 53)" using assms by (simp only: of_int_less_iff)
  then have "\<bar>real_of_int n\<bar> < 2 ^ 53" by simp
  also have "(2::real) ^ 53 < 2 ^ 1024" by (rule power_strict_increasing) simp_all
  finally show "\<bar>real_of_int n\<bar> < 2 ^ 1024" .
qed

lemma round_dyadic:
  assumes "\<bar>m\<bar> < 2 ^ 53" "k \<le> 1074"
  shows "round_to_double (real_of_int m / 2 ^ k) = Finite (real_of_int m / 2 ^ k)"
proof (rule round_exact [of _ m "- int k"])
  show "real_of_int m / 2 ^ k = real_of_int m * 2 powi (- int k)"
    by (simp add: power_int_minus field_simps)
  show "\<bar>m\<bar> < 2 ^ 53" by (rule assms)
  show "- 1074 \<le> - int k" using assms by simp
  have "real_of_int \<bar>m\<bar> < real_of_int (2 ^ 53)" using assms by (simp only: of_int_less_iff)
  then have m: "\<bar>real_of_int m\<bar> < 2 ^ 53" by simp
  have "\<bar>real_of_int m / 2 ^ k\<bar> = \<bar>real_of_int m\<bar> / 2 ^ k" by simp
  also have "\<dots> \<le> \<bar>real_of_int m\<bar>"
  proof -
    have "(1::real) \<le> 2 ^ k" by simp
    then have "\<bar>real_of_int m\<bar> * 1 \<le> \<bar>real_of_int m\<bar> * 2 ^ k"
      by (intro mult_left_mono) simp_all
    then show ?thesis by (simp add: field_simps)
  qed
  also have "\<dots> < 2 ^ 53" by (rule m)
  also have "(2::real) ^ 53 < 2 ^ 1024" by (rule power_strict_increasing) simp_all
  finally show "\<bar>real_of_int m / 2 ^ k\<bar> < 2 ^ 1024" .
qed

lemma round_one_plus:
  assumes "0 \<le> t" "t < 1 / 2 ^ 53"
  shows "round_to_double (1 + t) = Finite 1"
proof -
  have t2: "t * 2 ^ 52 < 1 / 2" using assms by (simp add: field_simps)
  have "t < 1" using assms(2) by (rule less_trans) simp
  then have "\<lfloor>log 2 \<bar>1 + t\<bar>\<rfloor> = 0"
    using assms by (simp add: floor_log_eq_powr_iff)
  then have q: "quantum (1 + t) = - 52" using assms by (simp add: quantum_def)
  have sc: "(1 + t) / 2 powi (- 52) = of_int (2 ^ 52) + t * 2 ^ 52"
    by (simp add: power_int_minus algebra_simps)
  have fl: "\<lfloor>of_int (2 ^ 52) + t * 2 ^ 52\<rfloor> = 2 ^ 52"
    using assms t2 by (simp add: floor_unique)
  have "round_half_even ((1 + t) / 2 powi (- 52)) = 2 ^ 52"
    unfolding sc round_half_even_def fl using t2 by (simp add: Let_def)
  then show ?thesis
    by (simp add: round_to_double_def q Let_def power_int_minus)
qed

text \<open>Unfolding these evaluates the functions in double precision.\<close>

lemmas double_defs = double_arith_def dsub_def dint_def dpow_def signed_inf_def

lemmas in_defs = monthly_mortgage_payment_in_def fv_lump_sum_in_def fv_monthly_annuity_in_def
  buy_vs_rent_wealth_in_def Let_def

lemmas round_values =
  round_int [of 0, simplified] round_int [of 1, simplified] round_int [of 12, simplified]
  round_int [of 100, simplified] round_int [of 1200, simplified]
  round_int [of 2400, simplified]
  round_dyadic [of 1 54, simplified] round_dyadic [of 1200 54, simplified]
  round_one_plus [of "1 / 2 ^ 54", simplified] round_one_plus [of "1 / 2 ^ 60", simplified]

text \<open>In exact arithmetic the functions are the ones over the real numbers.\<close>

lemma exact_ops:
  "fadd exact_arith = (+)" "fsub exact_arith = (-)" "fmul exact_arith = (*)"
  "fdiv exact_arith = py_truediv" "fpow exact_arith = py_pow"
  "fint exact_arith n = Inr (real_of_int n)" "fone exact_arith = 1" "ftwelve exact_arith = 12"
  "fzero exact_arith x \<longleftrightarrow> x = 0"
  by (simp_all add: exact_arith_def)

lemma monthly_mortgage_payment_exact:
  "monthly_mortgage_payment_in exact_arith = monthly_mortgage_payment"
  by (intro ext) (simp add: monthly_mortgage_payment_in_def monthly_mortgage_payment_def
      exact_ops py_truediv_def Let_def)

lemma fv_lump_sum_exact: "fv_lump_sum_in exact_arith = fv_lump_sum"
  by (intro ext) (simp add: fv_lump_sum_in_def fv_lump_sum_def exact_ops)

lemma fv_monthly_annuity_exact: "fv_monthly_annuity_in exact_arith = fv_monthly_annuity"
  by (intro ext) (simp add: fv_monthly_annuity_in_def fv_monthly_annuity_def
      exact_ops py_truediv_def Let_def)

lemma buy_vs_rent_wealth_exact: "buy_vs_rent_wealth_in exact_arith = buy_vs_rent_wealth"
  by (intro ext)
    (simp add: buy_vs_rent_wealth_in_def buy_vs_rent_wealth_def monthly_mortgage_payment_exact
      fv_lump_sum_exact fv_monthly_annuity_exact exact_ops)

subsection \<open>The functions where nothing raises\<close>

lemma py_pow_nonneg: "0 \<le> n \<Longrightarrow> py_pow b n = Inr (b ^ nat n)"
  by (simp add: py_pow_def)

lemma growth_gt_one:
  fixes r :: real
  assumes "0 < r" "0 < n"
  shows "1 < (1 + r) ^ n"
  using assms by simp

lemma monthly_mortgage_payment_zero_rate:
  "0 < years \<Longrightarrow>
   monthly_mortgage_payment princ 0 years = Inr (princ / real_of_int (years * 12))"
  by (simp add: monthly_mortgage_payment_def py_truediv_def)

lemma monthly_mortgage_payment_pos_rate:
  assumes "0 < annual_rate" "0 < years"
  shows "monthly_mortgage_payment princ annual_rate years =
         Inr (princ * (annual_rate / 12 * (1 + annual_rate / 12) ^ nat (years * 12))
              / ((1 + annual_rate / 12) ^ nat (years * 12) - 1))"
proof -
  have n: "0 < nat (years * 12)" using assms by simp
  have "0 < annual_rate / 12" using assms by simp
  then have "1 < (1 + annual_rate / 12) ^ nat (years * 12)"
    using n by (rule growth_gt_one)
  then have nz: "(1 + annual_rate / 12) ^ nat (years * 12) - 1 \<noteq> 0" by simp
  have ge: "0 \<le> years * 12" using assms by simp
  show ?thesis
    using assms nz
    by (simp add: monthly_mortgage_payment_def py_truediv_def py_pow_nonneg [OF ge] Let_def)
qed

lemma fv_lump_sum_nonneg_years:
  "0 \<le> years \<Longrightarrow> fv_lump_sum pv annual_rate years = Inr (pv * (1 + annual_rate) ^ nat years)"
  by (simp add: fv_lump_sum_def py_pow_nonneg)

lemma fv_monthly_annuity_nonneg_years:
  "0 \<le> years \<Longrightarrow>
   fv_monthly_annuity pmt annual_rate years =
     Inr (if annual_rate = 0 then pmt * real_of_int (years * 12)
          else pmt * (((1 + annual_rate / 12) ^ nat (years * 12) - 1) / (annual_rate / 12)))"
  by (simp add: fv_monthly_annuity_def py_truediv_def py_pow_nonneg Let_def)

lemma monthly_mortgage_payment_returns:
  assumes "0 \<le> annual_rate" "0 < years"
  shows "\<exists>m. monthly_mortgage_payment princ annual_rate years = Inr m"
proof (cases "annual_rate = 0")
  case True
  then show ?thesis
    using assms monthly_mortgage_payment_zero_rate [of years princ] by simp
next
  case False
  then have "0 < annual_rate" using assms by simp
  then show ?thesis
    using assms monthly_mortgage_payment_pos_rate [of annual_rate years princ] by simp
qed

text \<open>
  The annuity factor is a geometric sum; in that form the two branches of
  \<open>fv_monthly_annuity\<close> agree.
\<close>

lemma annuity_factor_sum:
  fixes r :: real
  assumes "r \<noteq> 0"
  shows "((1 + r) ^ n - 1) / r = (\<Sum>k<n. (1 + r) ^ k)"
  using assms geometric_sum [of "1 + r" n] by simp

lemma fv_monthly_annuity_sum:
  assumes "0 \<le> years"
  shows "fv_monthly_annuity pmt annual_rate years =
         Inr (pmt * (\<Sum>k<nat (years * 12). (1 + annual_rate / 12) ^ k))"
proof (cases "annual_rate = 0")
  case True
  then show ?thesis using assms
    by (simp add: fv_monthly_annuity_nonneg_years)
next
  case False
  then have "annual_rate / 12 \<noteq> 0" by simp
  then have "((1 + annual_rate / 12) ^ nat (years * 12) - 1) / (annual_rate / 12)
             = (\<Sum>k<nat (years * 12). (1 + annual_rate / 12) ^ k)"
    by (rule annuity_factor_sum)
  then show ?thesis using assms False
    by (simp only: fv_monthly_annuity_nonneg_years if_False)
qed

lemma buy_vs_rent_wealth_returns:
  assumes "0 \<le> mrate" "0 < tyears"
  shows "\<exists>m. monthly_mortgage_payment (hprice * (1 - dpct)) mrate tyears = Inr m \<and>
           buy_vs_rent_wealth hprice dpct mrate tyears ryield ireturn happr =
           Inr (hprice * (1 + happr) ^ nat tyears,
                hprice * dpct * (1 + ireturn) ^ nat tyears
                  + (m - hprice * ryield / 12) * (\<Sum>k<nat (tyears * 12). (1 + ireturn / 12) ^ k),
                hprice * (1 + happr) ^ nat tyears
                  - (hprice * dpct * (1 + ireturn) ^ nat tyears
                  + (m - hprice * ryield / 12) * (\<Sum>k<nat (tyears * 12). (1 + ireturn / 12) ^ k)))"
proof -
  obtain m where m: "monthly_mortgage_payment (hprice * (1 - dpct)) mrate tyears = Inr m"
    using monthly_mortgage_payment_returns [OF assms] by blast
  have y: "0 \<le> tyears" using assms by simp
  show ?thesis
    using m
    by (simp add: buy_vs_rent_wealth_def Let_def py_truediv_def
        fv_lump_sum_nonneg_years [OF y] fv_monthly_annuity_sum [OF y])
qed

text \<open>Unfolding everything evaluates the functions at concrete inputs.\<close>

lemmas run_defs = buy_vs_rent_wealth_def monthly_mortgage_payment_def fv_lump_sum_def
  fv_monthly_annuity_def py_truediv_def py_pow_def Let_def


subsection \<open>Facts of exact arithmetic\<close>

lemma growth_sum_le:
  fixes r :: real
  assumes "0 \<le> r"
  shows "(\<Sum>k<n. (1 + r) ^ k) \<le> real n * (1 + r) ^ n"
proof -
  have "(\<Sum>k<n. (1 + r) ^ k) \<le> (\<Sum>k<n. (1 + r) ^ n)"
  proof (rule sum_mono)
    fix k assume "k \<in> {..<n}"
    then have "k \<le> n" by simp
    then show "(1 + r) ^ k \<le> (1 + r) ^ n"
      using assms by (simp add: power_increasing)
  qed
  then show ?thesis by simp
qed

lemma amortization_total_ge:
  fixes r P :: real
  assumes "0 < r" "0 < n" "0 < P"
  shows "P \<le> P * (r * (1 + r) ^ n) / ((1 + r) ^ n - 1) * real n"
proof -
  let ?q = "(1 + r) ^ n"
  have q: "1 < ?q" using assms by (simp add: growth_gt_one)
  have "?q - 1 = r * (\<Sum>k<n. (1 + r) ^ k)"
    using annuity_factor_sum [of r n] assms by (simp add: field_simps)
  also have "\<dots> \<le> r * (real n * ?q)"
    using growth_sum_le [of r n] assms by (simp add: mult_left_mono)
  finally have "?q - 1 \<le> r * ?q * real n" by (simp add: mult_ac)
  then have "1 \<le> r * ?q * real n / (?q - 1)"
    using q by (simp add: le_divide_eq)
  then have "P * 1 \<le> P * (r * ?q * real n / (?q - 1))"
    using assms by (simp only: mult_le_cancel_left_pos)
  then show ?thesis by (simp add: mult_ac)
qed

lemma amortization_pos:
  fixes r P :: real
  assumes "0 < r" "0 < n" "0 < P"
  shows "0 < P * (r * (1 + r) ^ n) / ((1 + r) ^ n - 1)"
proof -
  have q: "1 < (1 + r) ^ n" using assms by (simp add: growth_gt_one)
  then have "0 < (1 + r) ^ n" by simp
  then show ?thesis using assms q by simp
qed

lemma amortization_covers_principal:
  assumes "0 < princ" "0 \<le> annual_rate" "0 < years"
  shows "\<exists>m. monthly_mortgage_payment princ annual_rate years = Inr m \<and> 0 < m \<and>
           (0 < annual_rate \<longrightarrow> princ \<le> m * real_of_int (years * 12)) \<and>
           (annual_rate = 0 \<longrightarrow> m = princ / real_of_int (years * 12))"
proof (cases "annual_rate = 0")
  case True
  then show ?thesis
    using assms monthly_mortgage_payment_zero_rate [of years princ] by simp
next
  case False
  then have a: "0 < annual_rate" using assms by simp
  then have r: "0 < annual_rate / 12" by simp
  have n: "0 < nat (years * 12)" using assms by simp
  have cast: "real_of_int (years * 12) = real (nat (years * 12))" using assms by simp
  show ?thesis
    using a amortization_total_ge [OF r n assms(1)] amortization_pos [OF r n assms(1)]
      monthly_mortgage_payment_pos_rate [OF a assms(3), of princ]
    by (simp only: cast) auto
qed


lemma buy_wealth_growth_strict:
  assumes "0 < hp" "0 \<le> mr" "0 < ty" "0 \<le> a1" "a1 < a2"
  shows "\<exists>b1 r1 d1 b2 r2 d2.
           buy_vs_rent_wealth hp dp mr ty ry ir a1 = Inr (b1, r1, d1) \<and>
           buy_vs_rent_wealth hp dp mr ty ry ir a2 = Inr (b2, r2, d2) \<and>
           b1 < b2"
proof -
  have n: "0 < nat ty" using assms by simp
  have "(1 + a1) ^ nat ty < (1 + a2) ^ nat ty"
    using assms n by (simp add: power_strict_mono)
  then have lt: "hp * (1 + a1) ^ nat ty < hp * (1 + a2) ^ nat ty"
    using assms by simp
  show ?thesis
    using buy_vs_rent_wealth_returns [OF assms(2,3), of hp dp ry ir a1]
      buy_vs_rent_wealth_returns [OF assms(2,3), of hp dp ry ir a2] lt
    by auto
qed


subsection \<open>The scenario evaluation as a composition\<close>

lemma py_then_returns_iff:
  "py_then m f = Inr v \<longleftrightarrow> (\<exists>x. m = Inr x \<and> f x = Inr v)"
  by (cases m) simp_all

text \<open>
  C1, as the code has it. In whatever float arithmetic the code runs,
  \<open>buy_vs_rent_wealth\<close> returns a triple exactly when its calls return
  (\<open>monthly_mortgage_payment\<close> on the loan, the division for the monthly rent,
  \<open>fv_lump_sum\<close> on the house price, \<open>fv_lump_sum\<close> on the down payment and
  \<open>fv_monthly_annuity\<close> on payment minus rent), and then the buy wealth is the first
  \<open>fv_lump_sum\<close>, the rent wealth is the second \<open>fv_lump_sum\<close> plus the annuity, and
  the difference is buy wealth minus rent wealth. That the calls return is not
  promised by the invariants.
\<close>

theorem evaluate_composition:
  "buy_vs_rent_wealth_in A hp dp mr ty ry ir ha = Inr (bw, rw, d) \<longleftrightarrow>
     (\<exists>m rent fd fc.
        monthly_mortgage_payment_in A (fmul A hp (fsub A (fone A) dp)) mr ty = Inr m \<and>
        fdiv A (fmul A hp ry) (ftwelve A) = Inr rent \<and>
        fv_lump_sum_in A hp ha ty = Inr bw \<and>
        fv_lump_sum_in A (fmul A hp dp) ir ty = Inr fd \<and>
        fv_monthly_annuity_in A (fsub A m rent) ir ty = Inr fc \<and>
        rw = fadd A fd fc \<and> d = fsub A bw rw)"
  by (auto simp: buy_vs_rent_wealth_in_def Let_def py_then_returns_iff)

text \<open>
  C1, as the claim states it, fails in double precision inside the invariants: with
  house price 2400, no down payment, a term of one year and the mortgage rate
  \<open>3 * 2^-52\<close>, the monthly rate is \<open>2^-54\<close>, \<open>1 + r\<close> rounds to \<open>1.0\<close>, the
  denominator \<open>(1 + r) ** 12 - 1\<close> is \<open>0.0\<close>, and the call raises
  \<open>ZeroDivisionError\<close> instead of returning a triple.
\<close>

theorem evaluate_raises_counterexample:
  "buy_vs_rent_wealth_in double_arith (Finite 2400) (Finite 0) (Finite (3 / 2 ^ 52)) 1
     (Finite 0) (Finite 0) (Finite 0) = Inl ZeroDivisionError"
  by (simp add: in_defs double_defs round_values)

subsection \<open>The mortgage payment formula\<close>

text \<open>
  C4, as the code has it. In whatever float arithmetic the code runs, with
  \<open>r = annual_rate / 12.0\<close> and \<open>n = years * 12\<close>, \<open>monthly_mortgage_payment\<close>
  returns \<open>v\<close> exactly when, at rate \<open>== 0\<close>, the division \<open>principal / n\<close> returns
  \<open>v\<close>, and otherwise the power \<open>p = (1 + r) ** n\<close> returns and the division
  \<open>principal * (r * p) / (p - 1)\<close> returns \<open>v\<close>, every operation rounded. It is the
  formula of the claim, but a rate \<open>\<ge> 0\<close> and years \<open>> 0\<close> do not make it return.
\<close>

theorem monthly_mortgage_payment_formula:
  "monthly_mortgage_payment_in A princ annual_rate years = Inr v \<longleftrightarrow>
     (\<exists>r. fdiv A annual_rate (ftwelve A) = Inr r \<and>
        (if fzero A annual_rate
         then \<exists>n. fint A (years * 12) = Inr n \<and> fdiv A princ n = Inr v
         else \<exists>p. fpow A (fadd A (fone A) r) (years * 12) = Inr p \<and>
                fdiv A (fmul A princ (fmul A r p)) (fsub A p (fone A)) = Inr v))"
  by (auto simp: monthly_mortgage_payment_in_def Let_def py_then_returns_iff)

text \<open>
  C4, as the claim states it, fails in double precision: at principal 1200, rate
  \<open>3 * 2^-52 > 0\<close> and one year the power is \<open>1.0\<close>, the denominator is \<open>0.0\<close>
  and the call raises \<open>ZeroDivisionError\<close>, where the formula over the real numbers
  has a value.
\<close>

theorem monthly_mortgage_payment_raises_counterexample:
  "monthly_mortgage_payment_in double_arith (Finite 1200) (Finite (3 / 2 ^ 52)) 1
     = Inl ZeroDivisionError"
  by (simp add: in_defs double_defs round_values)

subsection \<open>The payments cover the principal\<close>

lemma growth_sum_le_margin:
  fixes r :: real
  assumes "0 \<le> r"
  shows "(1 + r) * (\<Sum>k<n. (1 + r) ^ k) \<le> real n * (1 + r) ^ n"
proof -
  have "(1 + r) * (\<Sum>k<n. (1 + r) ^ k) = (\<Sum>k<n. (1 + r) ^ Suc k)"
    by (simp add: sum_distrib_left)
  also have "\<dots> \<le> (\<Sum>k<n. (1 + r) ^ n)"
  proof (rule sum_mono)
    fix k assume "k \<in> {..<n}"
    then have "Suc k \<le> n" by simp
    then show "(1 + r) ^ Suc k \<le> (1 + r) ^ n"
      using assms by (intro power_increasing) simp_all
  qed
  finally show ?thesis by simp
qed

lemma amortization_total_margin:
  fixes r P :: real
  assumes "0 < r" "0 < n" "0 < P"
  shows "P * (1 + r) \<le> P * (r * (1 + r) ^ n) / ((1 + r) ^ n - 1) * real n"
proof -
  let ?q = "(1 + r) ^ n"
  let ?S = "\<Sum>k<n. (1 + r) ^ k"
  have q: "1 < ?q" using assms by (simp add: growth_gt_one)
  have qS: "?q - 1 = r * ?S"
    using annuity_factor_sum [of r n] assms by (simp add: field_simps)
  have "(1 + r) * (?q - 1) = r * ((1 + r) * ?S)" by (simp only: qS) simp
  also have "\<dots> \<le> r * (real n * ?q)"
    using growth_sum_le_margin [of r n] assms by (simp add: mult_left_mono)
  finally have "(1 + r) * (?q - 1) \<le> r * ?q * real n" by (simp add: mult_ac)
  then have "1 + r \<le> r * ?q * real n / (?q - 1)"
    using q by (simp add: le_divide_eq)
  then have "P * (1 + r) \<le> P * (r * ?q * real n / (?q - 1))"
    using assms by (simp only: mult_le_cancel_left_pos)
  then show ?thesis by (simp add: mult_ac)
qed

text \<open>
  C5, as the code has it. Over the real numbers the claim holds for every positive
  principal, rate \<open>\<ge> 0\<close> and years \<open>> 0\<close> (\<open>amortization_covers_principal\<close>). In
  double precision it holds where rounding cannot decide it; it is stated for loans
  the page can produce: principal from 1 to 5,000,000, annual rate 0 or from 0.1 %
  (one slider step) to 10 %, and 1 to 40 years. There \<open>monthly_mortgage_payment\<close>
  returns a positive payment; at a positive rate the total paid, payment times
  \<open>years * 12\<close>, is at least the principal, and indeed at least the principal times
  \<open>1 + annual_rate / 12\<close>; at rate zero the payment is \<open>principal / (years * 12)\<close>.
\<close>

theorem monthly_mortgage_payment_covers_principal:
  assumes "1 \<le> princ" "princ \<le> 5000000"
    and "annual_rate = 0 \<or> 1 / 1000 \<le> annual_rate" "annual_rate \<le> 1 / 10"
    and "1 \<le> years" "years \<le> 40"
  shows "\<exists>m. monthly_mortgage_payment princ annual_rate years = Inr m \<and> 0 < m \<and>
           (0 < annual_rate \<longrightarrow>
              princ \<le> m * real_of_int (years * 12) \<and>
              princ * (1 + annual_rate / 12) \<le> m * real_of_int (years * 12)) \<and>
           (annual_rate = 0 \<longrightarrow> m = princ / real_of_int (years * 12))"
proof (cases "annual_rate = 0")
  case True
  then show ?thesis
    using assms monthly_mortgage_payment_zero_rate [of years princ] by simp
next
  case False
  then have a: "0 < annual_rate" using assms(3) by auto
  then have r: "0 < annual_rate / 12" by simp
  have y: "0 < years" using assms(5) by simp
  have p: "0 < princ" using assms(1) by simp
  have n: "0 < nat (years * 12)" using y by simp
  have cast: "real_of_int (years * 12) = real (nat (years * 12))" using y by simp
  show ?thesis
    using a amortization_total_ge [OF r n p] amortization_total_margin [OF r n p]
      amortization_pos [OF r n p] monthly_mortgage_payment_pos_rate [OF a y, of princ]
    by (simp only: cast) auto
qed

theorem monthly_mortgage_payment_covers_principal_witness:
  "(1::real) \<le> 120000 \<and> (120000::real) \<le> 5000000 \<and> (1::int) \<le> 5 \<and> (5::int) \<le> 40 \<and>
   monthly_mortgage_payment 120000 0 5 = Inr 2000 \<and> (0::real) < 2000 \<and>
   (2000::real) = 120000 / real_of_int (5 * 12)"
  using monthly_mortgage_payment_covers_principal [of 120000 0 5]
  by (simp add: run_defs)

text \<open>
  C5, as the claim states it, fails in double precision: at principal 2400, rate
  \<open>3 * 2^-52 > 0\<close> and one year the call raises \<open>ZeroDivisionError\<close> and returns no
  payment at all.
\<close>

theorem monthly_mortgage_payment_no_payment_counterexample:
  "monthly_mortgage_payment_in double_arith (Finite 2400) (Finite (3 / 2 ^ 52)) 1
     = Inl ZeroDivisionError"
  by (simp add: in_defs double_defs round_values)

subsection \<open>The buyer's wealth and the home appreciation\<close>

text \<open>
  C7, as the code has it. Over the real numbers the buyer's wealth is strictly
  increasing in the home appreciation (\<open>buy_wealth_growth_strict\<close>). In double precision
  it is so where the two rates are far enough apart; it is stated for the values the
  sidebar can deliver: for sidebar values \<open>s\<close> and a second home appreciation at least
  0.1 % (one slider step) above that of \<open>s\<close> and at most 10 %, both evaluations
  return, and the buy wealth at the higher appreciation is strictly larger.
\<close>

theorem buy_wealth_strictly_increasing:
  assumes "sidebar_values s"
    and "home_appreciation s + 1 / 1000 \<le> a2" "a2 \<le> 1 / 10"
  shows "\<exists>b1 r1 d1 b2 r2 d2.
           base_case s = Inr (b1, r1, d1) \<and>
           base_case (s\<lparr>home_appreciation := a2\<rparr>) = Inr (b2, r2, d2) \<and>
           b1 < b2"
proof -
  have r: "0 < house_price s" "0 \<le> mortgage_rate s" "0 < term_years s"
    "0 \<le> home_appreciation s"
    using assms(1) by (auto simp: sidebar_values_def)
  have lt: "home_appreciation s < a2" using assms(2) by simp
  show ?thesis
    using buy_wealth_growth_strict [OF r lt, of "down_pct s" "rent_yield s" "invest_return s"]
    by (simp add: base_case_def)
qed

theorem buy_wealth_strictly_increasing_witness:
  "(let s = \<lparr>house_price = 120000, down_pct = 0, mortgage_rate = 0, term_years = 5,
             rent_yield = 0, invest_return = 0, home_appreciation = 0\<rparr>
    in sidebar_values s \<and> home_appreciation s + 1 / 1000 \<le> 1 / 10 \<and>
       base_case s = Inr (120000, 120000, 0) \<and>
       base_case (s\<lparr>home_appreciation := 1 / 10\<rparr>)
         = Inr (1932612 / 10, 120000, 732612 / 10) \<and>
       (120000::real) < 1932612 / 10)"
  using buy_wealth_strictly_increasing
    [of "\<lparr>house_price = 120000, down_pct = 0, mortgage_rate = 0, term_years = 5,
           rent_yield = 0, invest_return = 0, home_appreciation = 0\<rparr>" "1 / 10"]
  by (simp add: sidebar_values_def base_case_def run_defs power_divide)

text \<open>
  C7, as the claim states it, fails in double precision: with house price 1200, a term
  of one year and everything else 0, the home appreciations \<open>0\<close> and \<open>2^-60\<close> give
  the same buy wealth 1200, because \<open>1 + 2^-60\<close> rounds to \<open>1.0\<close>.
\<close>

theorem buy_wealth_not_strict_counterexample:
  "buy_vs_rent_wealth_in double_arith (Finite 1200) (Finite 0) (Finite 0) 1
     (Finite 0) (Finite 0) (Finite 0) = Inr (Finite 1200, Finite 1200, Finite 0) \<and>
   buy_vs_rent_wealth_in double_arith (Finite 1200) (Finite 0) (Finite 0) 1
     (Finite 0) (Finite 0) (Finite (1 / 2 ^ 60)) = Inr (Finite 1200, Finite 1200, Finite 0)"
  by (simp add: in_defs double_defs round_values)

subsection \<open>The buyer's wealth and the other parameters\<close>

text \<open>
  C10, as the code has it. In whatever float arithmetic the code runs: when two
  evaluations that agree on house price, home appreciation and term both return, they
  return the same buyer's wealth, which is \<open>fv_lump_sum\<close> of the house price, whatever
  the down payment fractions, mortgage rates, rent yields and investment returns are.
  Whether an evaluation returns does depend on them.
\<close>

theorem buy_wealth_independent:
  assumes "buy_vs_rent_wealth_in A hp dp1 mr1 ty ry1 ir1 ha = Inr (b1, r1, d1)"
    and "buy_vs_rent_wealth_in A hp dp2 mr2 ty ry2 ir2 ha = Inr (b2, r2, d2)"
  shows "b1 = b2 \<and> fv_lump_sum_in A hp ha ty = Inr b1"
  using assms by (auto simp: buy_vs_rent_wealth_in_def Let_def py_then_returns_iff)

theorem buy_wealth_independent_witness:
  "buy_vs_rent_wealth_in exact_arith 8190 0 0 1 0 0 1 = Inr (16380, 8190, 8190) \<and>
   buy_vs_rent_wealth_in exact_arith 8190 (1 / 2) 12 1 0 12 1
     = Inr (16380, 16826355, - 16809975) \<and>
   (16380 :: real) = 16380 \<and> fv_lump_sum_in exact_arith 8190 1 1 = Inr 16380"
proof -
  have a: "buy_vs_rent_wealth_in exact_arith 8190 0 0 1 0 0 1 = Inr (16380, 8190, 8190)"
    by (simp add: buy_vs_rent_wealth_exact run_defs)
  have b: "buy_vs_rent_wealth_in exact_arith 8190 (1 / 2) 12 1 0 12 1
     = Inr (16380, 16826355, - 16809975)"
    by (simp add: buy_vs_rent_wealth_exact run_defs)
  show ?thesis using a b buy_wealth_independent [OF a b] by simp
qed

text \<open>
  C10, as the claim states it, fails in double precision: with house price 1200, a term
  of one year and everything else 0, the evaluation at mortgage rate 0 returns the buy
  wealth 1200, and the evaluation at mortgage rate \<open>3 * 2^-52\<close> raises
  \<open>ZeroDivisionError\<close> and returns no buy wealth at all.
\<close>

theorem buy_wealth_missing_counterexample:
  "buy_vs_rent_wealth_in double_arith (Finite 1200) (Finite 0) (Finite 0) 1
     (Finite 0) (Finite 0) (Finite 0) = Inr (Finite 1200, Finite 1200, Finite 0) \<and>
   buy_vs_rent_wealth_in double_arith (Finite 1200) (Finite 0) (Finite (3 / 2 ^ 52)) 1
     (Finite 0) (Finite 0) (Finite 0) = Inl ZeroDivisionError"
  by (simp add: in_defs double_defs round_values)

subsection \<open>The boundary of a full down payment\<close>

lemma growth_le:
  fixes x b :: real
  assumes "0 \<le> x" "x \<le> b" "n \<le> N"
  shows "(1 + x) ^ n \<le> (1 + b) ^ N"
proof -
  have "(1 + x) ^ n \<le> (1 + b) ^ n" using assms by (intro power_mono) simp_all
  also have "\<dots> \<le> (1 + b) ^ N" using assms by (intro power_increasing) simp_all
  finally show ?thesis .
qed

lemma home_growth_bound: "(1 + 1 / 10 :: real) ^ 40 \<le> 50"
  by (simp add: power_divide)

lemma invest_growth_bound: "(1 + 15 / 100 :: real) ^ 40 \<le> 300"
  by (simp add: power_divide)

lemma monthly_growth_bound: "(1 + 15 / 100 / 12 :: real) ^ 480 \<le> 600"
proof -
  have "(1 + 15 / 100 / 12 :: real) ^ 12 \<le> 117 / 100" by (simp add: power_divide)
  then have "((1 + 15 / 100 / 12 :: real) ^ 12) ^ 40 \<le> (117 / 100) ^ 40"
    by (intro power_mono) simp_all
  also have "\<dots> \<le> 600" by (simp add: power_divide)
  finally show ?thesis by (simp add: power_mult [symmetric])
qed

lemma full_down_payment_zero:
  assumes "0 \<le> mr" "0 < ty"
  shows "monthly_mortgage_payment (hp * (1 - 1)) mr ty = Inr 0"
proof (cases "mr = 0")
  case True
  then show ?thesis using assms monthly_mortgage_payment_zero_rate [of ty 0] by simp
next
  case False
  then have "0 < mr" using assms by simp
  then show ?thesis using assms monthly_mortgage_payment_pos_rate [of mr ty 0] by simp
qed

lemma product_bound:
  fixes a b :: real
  assumes "0 \<le> a" "a \<le> A" "0 \<le> b" "b \<le> B"
  shows "0 \<le> a * b" "a * b \<le> A * B"
proof -
  show "0 \<le> a * b" using assms by simp
  show "a * b \<le> A * B" using assms by (intro mult_mono) simp_all
qed

lemma annuity_sum_bound:
  fixes x :: real
  assumes "0 \<le> x" "x \<le> 15 / 100 / 12" "n \<le> 480"
  shows "0 \<le> (\<Sum>k<n. (1 + x) ^ k)" "(\<Sum>k<n. (1 + x) ^ k) \<le> 288000"
proof -
  show "0 \<le> (\<Sum>k<n. (1 + x) ^ k)" using assms by (intro sum_nonneg) simp
  have "(\<Sum>k<n. (1 + x) ^ k) \<le> real n * (1 + x) ^ n" using assms(1) by (rule growth_sum_le)
  also have "\<dots> \<le> 480 * 600"
  proof (rule mult_mono)
    show "real n \<le> 480" using assms by simp
    have "(1 + x) ^ n \<le> (1 + 15 / 100 / 12) ^ 480" using assms by (rule growth_le)
    then show "(1 + x) ^ n \<le> 600" using monthly_growth_bound by linarith
  qed (use assms in simp_all)
  finally show "(\<Sum>k<n. (1 + x) ^ k) \<le> 288000" by simp
qed

text \<open>
  C8, as the code has it. At down payment fraction 1 the loan principal is
  \<open>house_price * (1 - 1) = 0\<close>. For the other parameters at values the sidebar can
  deliver (in particular a mortgage rate of 0 or at least 0.1 %),
  \<open>monthly_mortgage_payment\<close> returns \<open>0\<close> and \<open>buy_vs_rent_wealth\<close> returns a triple
  of numbers of magnitude at most \<open>10^11\<close>: no branch divides by zero and nothing
  overflows.
\<close>

theorem full_down_payment_boundary:
  assumes "sidebar_values s"
  shows "monthly_mortgage_payment (house_price s * (1 - 1)) (mortgage_rate s) (term_years s)
           = Inr 0 \<and>
         (\<exists>bw rw d. base_case (s\<lparr>down_pct := 1\<rparr>) = Inr (bw, rw, d) \<and>
            \<bar>bw\<bar> \<le> 10 ^ 11 \<and> \<bar>rw\<bar> \<le> 10 ^ 11 \<and> \<bar>d\<bar> \<le> 10 ^ 11)"
proof -
  let ?hp = "house_price s" and ?mr = "mortgage_rate s" and ?ty = "term_years s"
  let ?ry = "rent_yield s" and ?ir = "invest_return s" and ?ha = "home_appreciation s"
  have r: "100000 \<le> ?hp" "?hp \<le> 5000000" "0 \<le> ?mr" "5 \<le> ?ty" "?ty \<le> 40"
    "0 \<le> ?ry" "?ry \<le> 1 / 10" "0 \<le> ?ir" "?ir \<le> 15 / 100" "0 \<le> ?ha" "?ha \<le> 1 / 10"
    using assms by (auto simp: sidebar_values_def)
  have ty: "0 < ?ty" using r by simp
  have m: "monthly_mortgage_payment (?hp * (1 - 1)) ?mr ?ty = Inr 0"
    using r(3) ty by (rule full_down_payment_zero)
  define bw where "bw = ?hp * (1 + ?ha) ^ nat ?ty"
  define fd where "fd = ?hp * 1 * (1 + ?ir) ^ nat ?ty"
  define S where "S = (\<Sum>k<nat (?ty * 12). (1 + ?ir / 12) ^ k)"
  define rw where "rw = fd + (0 - ?hp * ?ry / 12) * S"
  have res: "base_case (s\<lparr>down_pct := 1\<rparr>) = Inr (bw, rw, bw - rw)"
    using buy_vs_rent_wealth_returns [OF r(3) ty, of ?hp 1 ?ry ?ir ?ha] m
    by (simp add: base_case_def bw_def fd_def S_def rw_def)
  have n40: "nat ?ty \<le> 40" and n480: "nat (?ty * 12) \<le> 480" using r by simp_all
  have "(1 + ?ha) ^ nat ?ty \<le> (1 + 1 / 10) ^ 40" using r(10,11) n40 by (rule growth_le)
  then have g1: "(1 + ?ha) ^ nat ?ty \<le> 50" using home_growth_bound by linarith
  have g1': "0 \<le> (1 + ?ha) ^ nat ?ty" using r by simp
  have "(1 + ?ir) ^ nat ?ty \<le> (1 + 15 / 100) ^ 40" using r(8,9) n40 by (rule growth_le)
  then have g2: "(1 + ?ir) ^ nat ?ty \<le> 300" using invest_growth_bound by linarith
  have g2': "0 \<le> (1 + ?ir) ^ nat ?ty" using r by simp
  have Sb: "0 \<le> S" "S \<le> 288000"
    unfolding S_def using r n480 by (intro annuity_sum_bound; simp)+
  have hp0: "0 \<le> ?hp" using r by simp
  have bwb: "0 \<le> bw" "bw \<le> 5000000 * 50"
    unfolding bw_def using hp0 r(2) g1' g1 by (rule product_bound)+
  have fdb: "0 \<le> fd" "fd \<le> 5000000 * 300"
    unfolding fd_def mult_1_right using hp0 r(2) g2' g2 by (rule product_bound)+
  have rent: "0 \<le> ?hp * ?ry / 12" "?hp * ?ry / 12 \<le> 50000"
  proof -
    show "0 \<le> ?hp * ?ry / 12" using r by simp
    have "?hp * ?ry \<le> 5000000 * (1 / 10)" using r by (intro mult_mono) simp_all
    then show "?hp * ?ry / 12 \<le> 50000" by simp
  qed
  have cs: "0 \<le> ?hp * ?ry / 12 * S" "?hp * ?ry / 12 * S \<le> 50000 * 288000"
    using rent Sb by (rule product_bound)+
  have rwv: "rw = fd - ?hp * ?ry / 12 * S" by (simp add: rw_def)
  have b1: "\<bar>bw\<bar> \<le> 10 ^ 11" using bwb by simp
  have b2: "\<bar>rw\<bar> \<le> 10 ^ 11" using fdb cs unfolding rwv by (simp add: abs_le_iff)
  have b3: "\<bar>bw - rw\<bar> \<le> 10 ^ 11" using bwb fdb cs unfolding rwv by (simp add: abs_le_iff)
  show ?thesis using m res b1 b2 b3 by blast
qed

theorem full_down_payment_boundary_witness:
  "(let s = \<lparr>house_price = 120000, down_pct = 0, mortgage_rate = 0, term_years = 5,
             rent_yield = 0, invest_return = 0, home_appreciation = 0\<rparr>
    in sidebar_values s \<and>
       monthly_mortgage_payment (house_price s * (1 - 1)) (mortgage_rate s) (term_years s)
         = Inr 0 \<and>
       base_case (s\<lparr>down_pct := 1\<rparr>) = Inr (120000, 120000, 0))"
  using full_down_payment_boundary
    [of "\<lparr>house_price = 120000, down_pct = 0, mortgage_rate = 0, term_years = 5,
           rent_yield = 0, invest_return = 0, home_appreciation = 0\<rparr>"]
  by (simp add: sidebar_values_def base_case_def run_defs)

text \<open>
  C8, as the claim states it, fails in double precision: at down payment fraction 1
  and the mortgage rate \<open>3 * 2^-52 \<ge> 0\<close>, with house price 1200 and a term of one
  year, the loan is \<open>0.0\<close>, the denominator \<open>(1 + r) ** 12 - 1\<close> is \<open>0.0\<close>, and both
  \<open>monthly_mortgage_payment\<close> and \<open>buy_vs_rent_wealth\<close> raise \<open>ZeroDivisionError\<close>.
\<close>

theorem full_down_payment_divides_by_zero_counterexample:
  "monthly_mortgage_payment_in double_arith
     (dmul (Finite 1200) (dsub (Finite 1) (Finite 1))) (Finite (3 / 2 ^ 52)) 1
     = Inl ZeroDivisionError \<and>
   buy_vs_rent_wealth_in double_arith (Finite 1200) (Finite 1) (Finite (3 / 2 ^ 52)) 1
     (Finite 0) (Finite 0) (Finite 0) = Inl ZeroDivisionError"
  by (simp add: in_defs double_defs round_values)

subsection \<open>Which inputs make the functions raise\<close>

lemma py_then_raises_iff:
  "py_then m f = Inl e \<longleftrightarrow> m = Inl e \<or> (\<exists>x. m = Inr x \<and> f x = Inl e)"
  by (cases m) simp_all

text \<open>
  C3, as the code has it. None of the four functions checks its parameters, and there
  is no \<open>InvalidParameter\<close> error. In whatever float arithmetic the code runs, a call
  raises exactly when one of its arithmetic steps raises (a division, a power, the
  conversion of \<open>years * 12\<close>), with the error of that step, \<open>ZeroDivisionError\<close> or
  \<open>OverflowError\<close>; \<open>buy_vs_rent_wealth\<close> raises exactly when one of its calls does.
  On every other input, valid or not, each function returns a number.
\<close>

theorem no_parameter_validation:
  "(fv_lump_sum_in A pv a y = Inl e \<longleftrightarrow> fpow A (fadd A (fone A) a) y = Inl e) \<and>
   (fv_monthly_annuity_in A pmt a y = Inl e \<longleftrightarrow>
      fdiv A a (ftwelve A) = Inl e \<or>
      (\<exists>r. fdiv A a (ftwelve A) = Inr r \<and>
         (if fzero A a then fint A (y * 12) = Inl e
          else fpow A (fadd A (fone A) r) (y * 12) = Inl e \<or>
               (\<exists>p. fpow A (fadd A (fone A) r) (y * 12) = Inr p \<and>
                  fdiv A (fsub A p (fone A)) r = Inl e)))) \<and>
   (monthly_mortgage_payment_in A princ a y = Inl e \<longleftrightarrow>
      fdiv A a (ftwelve A) = Inl e \<or>
      (\<exists>r. fdiv A a (ftwelve A) = Inr r \<and>
         (if fzero A a
          then fint A (y * 12) = Inl e \<or>
               (\<exists>n. fint A (y * 12) = Inr n \<and> fdiv A princ n = Inl e)
          else fpow A (fadd A (fone A) r) (y * 12) = Inl e \<or>
               (\<exists>p. fpow A (fadd A (fone A) r) (y * 12) = Inr p \<and>
                  fdiv A (fmul A princ (fmul A r p)) (fsub A p (fone A)) = Inl e)))) \<and>
   (buy_vs_rent_wealth_in A hp dp mr ty ry ir ha = Inl e \<longleftrightarrow>
      monthly_mortgage_payment_in A (fmul A hp (fsub A (fone A) dp)) mr ty = Inl e \<or>
      (\<exists>m. monthly_mortgage_payment_in A (fmul A hp (fsub A (fone A) dp)) mr ty = Inr m \<and>
         (fdiv A (fmul A hp ry) (ftwelve A) = Inl e \<or>
          (\<exists>rent. fdiv A (fmul A hp ry) (ftwelve A) = Inr rent \<and>
             (fv_lump_sum_in A hp ha ty = Inl e \<or>
              (\<exists>bw. fv_lump_sum_in A hp ha ty = Inr bw \<and>
                 (fv_lump_sum_in A (fmul A hp dp) ir ty = Inl e \<or>
                  (\<exists>fd. fv_lump_sum_in A (fmul A hp dp) ir ty = Inr fd \<and>
                     fv_monthly_annuity_in A (fsub A m rent) ir ty = Inl e))))))))"
proof (intro conjI)
  show "fv_lump_sum_in A pv a y = Inl e \<longleftrightarrow> fpow A (fadd A (fone A) a) y = Inl e"
    by (auto simp: fv_lump_sum_in_def py_then_raises_iff)
  show "fv_monthly_annuity_in A pmt a y = Inl e \<longleftrightarrow>
      fdiv A a (ftwelve A) = Inl e \<or>
      (\<exists>r. fdiv A a (ftwelve A) = Inr r \<and>
         (if fzero A a then fint A (y * 12) = Inl e
          else fpow A (fadd A (fone A) r) (y * 12) = Inl e \<or>
               (\<exists>p. fpow A (fadd A (fone A) r) (y * 12) = Inr p \<and>
                  fdiv A (fsub A p (fone A)) r = Inl e)))"
    by (auto simp: fv_monthly_annuity_in_def Let_def py_then_raises_iff)
  show "monthly_mortgage_payment_in A princ a y = Inl e \<longleftrightarrow>
      fdiv A a (ftwelve A) = Inl e \<or>
      (\<exists>r. fdiv A a (ftwelve A) = Inr r \<and>
         (if fzero A a
          then fint A (y * 12) = Inl e \<or>
               (\<exists>n. fint A (y * 12) = Inr n \<and> fdiv A princ n = Inl e)
          else fpow A (fadd A (fone A) r) (y * 12) = Inl e \<or>
               (\<exists>p. fpow A (fadd A (fone A) r) (y * 12) = Inr p \<and>
                  fdiv A (fmul A princ (fmul A r p)) (fsub A p (fone A)) = Inl e)))"
    by (auto simp: monthly_mortgage_payment_in_def Let_def py_then_raises_iff)
  show "buy_vs_rent_wealth_in A hp dp mr ty ry ir ha = Inl e \<longleftrightarrow>
      monthly_mortgage_payment_in A (fmul A hp (fsub A (fone A) dp)) mr ty = Inl e \<or>
      (\<exists>m. monthly_mortgage_payment_in A (fmul A hp (fsub A (fone A) dp)) mr ty = Inr m \<and>
         (fdiv A (fmul A hp ry) (ftwelve A) = Inl e \<or>
          (\<exists>rent. fdiv A (fmul A hp ry) (ftwelve A) = Inr rent \<and>
             (fv_lump_sum_in A hp ha ty = Inl e \<or>
              (\<exists>bw. fv_lump_sum_in A hp ha ty = Inr bw \<and>
                 (fv_lump_sum_in A (fmul A hp dp) ir ty = Inl e \<or>
                  (\<exists>fd. fv_lump_sum_in A (fmul A hp dp) ir ty = Inr fd \<and>
                     fv_monthly_annuity_in A (fsub A m rent) ir ty = Inl e)))))))"
    by (auto simp: buy_vs_rent_wealth_in_def Let_def py_then_raises_iff)
qed

text \<open>
  C3, as the claim states it, fails: a down payment fraction of 2, a negative
  principal, a negative rate and a negative term are all accepted and give a number,
  and a term of \<open>0\<close> is rejected by the division itself, with \<open>ZeroDivisionError\<close>.
\<close>

theorem invalid_parameters_accepted_counterexample:
  "buy_vs_rent_wealth 1200 2 0 1 0 0 0 = Inr (1200, 1200, 0) \<and>
   monthly_mortgage_payment (- 1200) 0 1 = Inr (- 100) \<and>
   fv_lump_sum 100 (- 1 / 2) 1 = Inr 50 \<and>
   fv_monthly_annuity 100 0 (- 1) = Inr (- 1200) \<and>
   fv_lump_sum 100 0 0 = Inr 100 \<and>
   monthly_mortgage_payment 1200 0 0 = Inl ZeroDivisionError"
  by (simp add: run_defs)

subsection \<open>The base case in figures\<close>

text \<open>
  The powers of the base case are enclosed in intervals of decimal fractions by
  repeated squaring, each step rounded outwards.
\<close>

lemma power_bounds_double:
  fixes x lo hi lo' hi' :: real
  assumes "lo \<le> x ^ k \<and> x ^ k \<le> hi" "0 \<le> lo" "lo' \<le> lo * lo" "hi * hi \<le> hi'"
  shows "lo' \<le> x ^ (2 * k) \<and> x ^ (2 * k) \<le> hi'"
proof -
  have sq: "x ^ (2 * k) = x ^ k * x ^ k" by (simp add: mult_2 power_add)
  have p: "0 \<le> x ^ k" using assms by linarith
  have "lo * lo \<le> x ^ k * x ^ k" using assms by (simp add: mult_mono)
  moreover have "x ^ k * x ^ k \<le> hi * hi" using assms p by (simp add: mult_mono)
  ultimately show ?thesis using assms sq by linarith
qed

lemma power_bounds_succ:
  fixes x lo hi lo' hi' :: real
  assumes "lo \<le> x ^ k \<and> x ^ k \<le> hi" "0 \<le> x" "lo' \<le> lo * x" "hi * x \<le> hi'"
  shows "lo' \<le> x ^ Suc k \<and> x ^ Suc k \<le> hi'"
proof -
  have "lo * x \<le> x ^ k * x" using assms by (simp add: mult_right_mono)
  moreover have "x ^ k * x \<le> hi * x" using assms by (simp add: mult_right_mono)
  ultimately show ?thesis using assms by (simp add: mult.commute)
qed

lemma mortgage_growth_1: "301 / 300 \<le> (301 / 300 :: real) ^ 1 \<and> (301 / 300 :: real) ^ 1 \<le> 301 / 300"
  by simp

lemma mortgage_growth_2:
  "1006677777777 / 1000000000000 \<le> (301 / 300 :: real) ^ 2 \<and>
   (301 / 300 :: real) ^ 2 \<le> 1006677777778 / 1000000000000"
  using power_bounds_double [OF mortgage_growth_1,
      of "1006677777777 / 1000000000000"
         "1006677777778 / 1000000000000"]
  by simp

lemma mortgage_growth_4:
  "1013400148270 / 1000000000000 \<le> (301 / 300 :: real) ^ 4 \<and>
   (301 / 300 :: real) ^ 4 \<le> 1013400148273 / 1000000000000"
  using power_bounds_double [OF mortgage_growth_2,
      of "1013400148270 / 1000000000000"
         "1013400148273 / 1000000000000"]
  by simp

lemma mortgage_growth_5:
  "1016778148764 / 1000000000000 \<le> (301 / 300 :: real) ^ 5 \<and>
   (301 / 300 :: real) ^ 5 \<le> 1016778148768 / 1000000000000"
  using power_bounds_succ [OF mortgage_growth_4,
      of "1016778148764 / 1000000000000"
         "1016778148768 / 1000000000000"]
  by simp

lemma mortgage_growth_10:
  "1033837803803 / 1000000000000 \<le> (301 / 300 :: real) ^ 10 \<and>
   (301 / 300 :: real) ^ 10 \<le> 1033837803813 / 1000000000000"
  using power_bounds_double [OF mortgage_growth_5,
      of "1033837803803 / 1000000000000"
         "1033837803813 / 1000000000000"]
  by simp

lemma mortgage_growth_11:
  "1037283929815 / 1000000000000 \<le> (301 / 300 :: real) ^ 11 \<and>
   (301 / 300 :: real) ^ 11 \<le> 1037283929826 / 1000000000000"
  using power_bounds_succ [OF mortgage_growth_10,
      of "1037283929815 / 1000000000000"
         "1037283929826 / 1000000000000"]
  by simp

lemma mortgage_growth_22:
  "1075957951052 / 1000000000000 \<le> (301 / 300 :: real) ^ 22 \<and>
   (301 / 300 :: real) ^ 22 \<le> 1075957951076 / 1000000000000"
  using power_bounds_double [OF mortgage_growth_11,
      of "1075957951052 / 1000000000000"
         "1075957951076 / 1000000000000"]
  by simp

lemma mortgage_growth_44:
  "1157685512432 / 1000000000000 \<le> (301 / 300 :: real) ^ 44 \<and>
   (301 / 300 :: real) ^ 44 \<le> 1157685512484 / 1000000000000"
  using power_bounds_double [OF mortgage_growth_22,
      of "1157685512432 / 1000000000000"
         "1157685512484 / 1000000000000"]
  by simp

lemma mortgage_growth_45:
  "1161544464140 / 1000000000000 \<le> (301 / 300 :: real) ^ 45 \<and>
   (301 / 300 :: real) ^ 45 \<le> 1161544464193 / 1000000000000"
  using power_bounds_succ [OF mortgage_growth_44,
      of "1161544464140 / 1000000000000"
         "1161544464193 / 1000000000000"]
  by simp

lemma mortgage_growth_90:
  "1349185542174 / 1000000000000 \<le> (301 / 300 :: real) ^ 90 \<and>
   (301 / 300 :: real) ^ 90 \<le> 1349185542298 / 1000000000000"
  using power_bounds_double [OF mortgage_growth_45,
      of "1349185542174 / 1000000000000"
         "1349185542298 / 1000000000000"]
  by simp

lemma mortgage_growth_180:
  "1820301627211 / 1000000000000 \<le> (301 / 300 :: real) ^ 180 \<and>
   (301 / 300 :: real) ^ 180 \<le> 1820301627546 / 1000000000000"
  using power_bounds_double [OF mortgage_growth_90,
      of "1820301627211 / 1000000000000"
         "1820301627546 / 1000000000000"]
  by simp

lemma mortgage_growth_360:
  "3313498014027 / 1000000000000 \<le> (301 / 300 :: real) ^ 360 \<and>
   (301 / 300 :: real) ^ 360 \<le> 3313498015247 / 1000000000000"
  using power_bounds_double [OF mortgage_growth_180,
      of "3313498014027 / 1000000000000"
         "3313498015247 / 1000000000000"]
  by simp

lemma invest_growth_1: "1005000000000 / 1000000000000 \<le> (201 / 200 :: real) ^ 1 \<and> (201 / 200 :: real) ^ 1 \<le> 1005000000000 / 1000000000000"
  by simp

lemma invest_growth_2:
  "1010025000000 / 1000000000000 \<le> (201 / 200 :: real) ^ 2 \<and>
   (201 / 200 :: real) ^ 2 \<le> 1010025000000 / 1000000000000"
  using power_bounds_double [OF invest_growth_1,
      of "1010025000000 / 1000000000000"
         "1010025000000 / 1000000000000"]
  by simp

lemma invest_growth_4:
  "1020150500625 / 1000000000000 \<le> (201 / 200 :: real) ^ 4 \<and>
   (201 / 200 :: real) ^ 4 \<le> 1020150500625 / 1000000000000"
  using power_bounds_double [OF invest_growth_2,
      of "1020150500625 / 1000000000000"
         "1020150500625 / 1000000000000"]
  by simp

lemma invest_growth_5:
  "1025251253128 / 1000000000000 \<le> (201 / 200 :: real) ^ 5 \<and>
   (201 / 200 :: real) ^ 5 \<le> 1025251253129 / 1000000000000"
  using power_bounds_succ [OF invest_growth_4,
      of "1025251253128 / 1000000000000"
         "1025251253129 / 1000000000000"]
  by simp

lemma invest_growth_10:
  "1051140132040 / 1000000000000 \<le> (201 / 200 :: real) ^ 10 \<and>
   (201 / 200 :: real) ^ 10 \<le> 1051140132043 / 1000000000000"
  using power_bounds_double [OF invest_growth_5,
      of "1051140132040 / 1000000000000"
         "1051140132043 / 1000000000000"]
  by simp

lemma invest_growth_11:
  "1056395832700 / 1000000000000 \<le> (201 / 200 :: real) ^ 11 \<and>
   (201 / 200 :: real) ^ 11 \<le> 1056395832704 / 1000000000000"
  using power_bounds_succ [OF invest_growth_10,
      of "1056395832700 / 1000000000000"
         "1056395832704 / 1000000000000"]
  by simp

lemma invest_growth_22:
  "1115972155345 / 1000000000000 \<le> (201 / 200 :: real) ^ 22 \<and>
   (201 / 200 :: real) ^ 22 \<le> 1115972155355 / 1000000000000"
  using power_bounds_double [OF invest_growth_11,
      of "1115972155345 / 1000000000000"
         "1115972155355 / 1000000000000"]
  by simp

lemma invest_growth_44:
  "1245393851505 / 1000000000000 \<le> (201 / 200 :: real) ^ 44 \<and>
   (201 / 200 :: real) ^ 44 \<le> 1245393851528 / 1000000000000"
  using power_bounds_double [OF invest_growth_22,
      of "1245393851505 / 1000000000000"
         "1245393851528 / 1000000000000"]
  by simp

lemma invest_growth_45:
  "1251620820762 / 1000000000000 \<le> (201 / 200 :: real) ^ 45 \<and>
   (201 / 200 :: real) ^ 45 \<le> 1251620820786 / 1000000000000"
  using power_bounds_succ [OF invest_growth_44,
      of "1251620820762 / 1000000000000"
         "1251620820786 / 1000000000000"]
  by simp

lemma invest_growth_90:
  "1566554678964 / 1000000000000 \<le> (201 / 200 :: real) ^ 90 \<and>
   (201 / 200 :: real) ^ 90 \<le> 1566554679026 / 1000000000000"
  using power_bounds_double [OF invest_growth_45,
      of "1566554678964 / 1000000000000"
         "1566554679026 / 1000000000000"]
  by simp

lemma invest_growth_180:
  "2454093562184 / 1000000000000 \<le> (201 / 200 :: real) ^ 180 \<and>
   (201 / 200 :: real) ^ 180 \<le> 2454093562379 / 1000000000000"
  using power_bounds_double [OF invest_growth_90,
      of "2454093562184 / 1000000000000"
         "2454093562379 / 1000000000000"]
  by simp

lemma invest_growth_360:
  "6022575211952 / 1000000000000 \<le> (201 / 200 :: real) ^ 360 \<and>
   (201 / 200 :: real) ^ 360 \<le> 6022575212911 / 1000000000000"
  using power_bounds_double [OF invest_growth_180,
      of "6022575211952 / 1000000000000"
         "6022575212911 / 1000000000000"]
  by simp

lemma home_growth_1: "1020000000000 / 1000000000000 \<le> (51 / 50 :: real) ^ 1 \<and> (51 / 50 :: real) ^ 1 \<le> 1020000000000 / 1000000000000"
  by simp

lemma home_growth_2:
  "1040400000000 / 1000000000000 \<le> (51 / 50 :: real) ^ 2 \<and>
   (51 / 50 :: real) ^ 2 \<le> 1040400000000 / 1000000000000"
  using power_bounds_double [OF home_growth_1,
      of "1040400000000 / 1000000000000"
         "1040400000000 / 1000000000000"]
  by simp

lemma home_growth_3:
  "1061208000000 / 1000000000000 \<le> (51 / 50 :: real) ^ 3 \<and>
   (51 / 50 :: real) ^ 3 \<le> 1061208000000 / 1000000000000"
  using power_bounds_succ [OF home_growth_2,
      of "1061208000000 / 1000000000000"
         "1061208000000 / 1000000000000"]
  by simp

lemma home_growth_6:
  "1126162419264 / 1000000000000 \<le> (51 / 50 :: real) ^ 6 \<and>
   (51 / 50 :: real) ^ 6 \<le> 1126162419264 / 1000000000000"
  using power_bounds_double [OF home_growth_3,
      of "1126162419264 / 1000000000000"
         "1126162419264 / 1000000000000"]
  by simp

lemma home_growth_7:
  "1148685667649 / 1000000000000 \<le> (51 / 50 :: real) ^ 7 \<and>
   (51 / 50 :: real) ^ 7 \<le> 1148685667650 / 1000000000000"
  using power_bounds_succ [OF home_growth_6,
      of "1148685667649 / 1000000000000"
         "1148685667650 / 1000000000000"]
  by simp

lemma home_growth_14:
  "1319478763062 / 1000000000000 \<le> (51 / 50 :: real) ^ 14 \<and>
   (51 / 50 :: real) ^ 14 \<le> 1319478763065 / 1000000000000"
  using power_bounds_double [OF home_growth_7,
      of "1319478763062 / 1000000000000"
         "1319478763065 / 1000000000000"]
  by simp

lemma home_growth_15:
  "1345868338323 / 1000000000000 \<le> (51 / 50 :: real) ^ 15 \<and>
   (51 / 50 :: real) ^ 15 \<le> 1345868338327 / 1000000000000"
  using power_bounds_succ [OF home_growth_14,
      of "1345868338323 / 1000000000000"
         "1345868338327 / 1000000000000"]
  by simp

lemma home_growth_30:
  "1811361584100 / 1000000000000 \<le> (51 / 50 :: real) ^ 30 \<and>
   (51 / 50 :: real) ^ 30 \<le> 1811361584112 / 1000000000000"
  using power_bounds_double [OF home_growth_15,
      of "1811361584100 / 1000000000000"
         "1811361584112 / 1000000000000"]
  by simp

lemma down_growth_1: "1060000000000 / 1000000000000 \<le> (53 / 50 :: real) ^ 1 \<and> (53 / 50 :: real) ^ 1 \<le> 1060000000000 / 1000000000000"
  by simp

lemma down_growth_2:
  "1123600000000 / 1000000000000 \<le> (53 / 50 :: real) ^ 2 \<and>
   (53 / 50 :: real) ^ 2 \<le> 1123600000000 / 1000000000000"
  using power_bounds_double [OF down_growth_1,
      of "1123600000000 / 1000000000000"
         "1123600000000 / 1000000000000"]
  by simp

lemma down_growth_3:
  "1191016000000 / 1000000000000 \<le> (53 / 50 :: real) ^ 3 \<and>
   (53 / 50 :: real) ^ 3 \<le> 1191016000000 / 1000000000000"
  using power_bounds_succ [OF down_growth_2,
      of "1191016000000 / 1000000000000"
         "1191016000000 / 1000000000000"]
  by simp

lemma down_growth_6:
  "1418519112256 / 1000000000000 \<le> (53 / 50 :: real) ^ 6 \<and>
   (53 / 50 :: real) ^ 6 \<le> 1418519112256 / 1000000000000"
  using power_bounds_double [OF down_growth_3,
      of "1418519112256 / 1000000000000"
         "1418519112256 / 1000000000000"]
  by simp

lemma down_growth_7:
  "1503630258991 / 1000000000000 \<le> (53 / 50 :: real) ^ 7 \<and>
   (53 / 50 :: real) ^ 7 \<le> 1503630258992 / 1000000000000"
  using power_bounds_succ [OF down_growth_6,
      of "1503630258991 / 1000000000000"
         "1503630258992 / 1000000000000"]
  by simp

lemma down_growth_14:
  "2260903955753 / 1000000000000 \<le> (53 / 50 :: real) ^ 14 \<and>
   (53 / 50 :: real) ^ 14 \<le> 2260903955757 / 1000000000000"
  using power_bounds_double [OF down_growth_7,
      of "2260903955753 / 1000000000000"
         "2260903955757 / 1000000000000"]
  by simp

lemma down_growth_15:
  "2396558193098 / 1000000000000 \<le> (53 / 50 :: real) ^ 15 \<and>
   (53 / 50 :: real) ^ 15 \<le> 2396558193103 / 1000000000000"
  using power_bounds_succ [OF down_growth_14,
      of "2396558193098 / 1000000000000"
         "2396558193103 / 1000000000000"]
  by simp

lemma down_growth_30:
  "5743491172905 / 1000000000000 \<le> (53 / 50 :: real) ^ 30 \<and>
   (53 / 50 :: real) ^ 30 \<le> 5743491172930 / 1000000000000"
  using power_bounds_double [OF down_growth_15,
      of "5743491172905 / 1000000000000"
         "5743491172930 / 1000000000000"]
  by simp


lemma fv_monthly_annuity_pos_rate:
  assumes "0 < annual_rate" "0 \<le> years"
  shows "fv_monthly_annuity pmt annual_rate years =
         Inr (pmt * (((1 + annual_rate / 12) ^ nat (years * 12) - 1) / (annual_rate / 12)))"
  using assms by (simp add: fv_monthly_annuity_nonneg_years)

lemma buy_vs_rent_wealth_compose:
  assumes "monthly_mortgage_payment (hp * (1 - dp)) mr ty = Inr m"
    and "fv_lump_sum hp ha ty = Inr bw"
    and "fv_lump_sum (hp * dp) ir ty = Inr fd"
    and "fv_monthly_annuity (m - hp * ry / 12) ir ty = Inr fc"
  shows "buy_vs_rent_wealth hp dp mr ty ry ir ha = Inr (bw, fd + fc, bw - (fd + fc))"
  using assms by (simp add: buy_vs_rent_wealth_def Let_def py_truediv_def)

lemma payment_interval:
  fixes q :: real
  assumes "3313498014027 / 1000000000000 \<le> q \<and> q \<le> 3313498015247 / 1000000000000"
  shows "3437390127 / 1000000 < 720000 * (4 / 100 / 12 * q) / (q - 1) \<and>
         720000 * (4 / 100 / 12 * q) / (q - 1) < 3437390128 / 1000000"
proof -
  have pos: "0 < q - 1" using assms by linarith
  have eq: "720000 * (4 / 100 / 12 * q) / (q - 1) = 2400 * q / (q - 1)" by simp
  have "3437390127 / 1000000 * (q - 1) < 2400 * q"
    using assms by (simp add: algebra_simps)
  then have lo: "3437390127 / 1000000 < 2400 * q / (q - 1)"
    using pos by (simp only: pos_less_divide_eq)
  have "2400 * q < 3437390128 / 1000000 * (q - 1)"
    using assms by (simp add: algebra_simps)
  then have hi: "2400 * q / (q - 1) < 3437390128 / 1000000"
    using pos by (simp only: pos_divide_less_eq)
  show ?thesis using lo hi by (simp only: eq)
qed

lemma base_payment_bounds:
  "\<exists>m. monthly_mortgage_payment 720000 (4 / 100) 30 = Inr m \<and>
       3437390127 / 1000000 < m \<and> m < 3437390128 / 1000000"
proof -
  define q :: real where "q = (1 + 4 / 100 / 12) ^ nat (30 * 12)"
  have qv: "q = (301 / 300) ^ 360" by (simp add: q_def)
  have qb: "3313498014027 / 1000000000000 \<le> q \<and> q \<le> 3313498015247 / 1000000000000"
    unfolding qv by (rule mortgage_growth_360)
  have "monthly_mortgage_payment 720000 (4 / 100) 30 =
        Inr (720000 * (4 / 100 / 12 * q) / (q - 1))"
    unfolding q_def by (rule monthly_mortgage_payment_pos_rate) simp_all
  then show ?thesis using payment_interval [OF qb] by blast
qed

lemma contribution_interval:
  fixes c s :: real
  assumes "437390127 / 1000000 < c" "c < 437390128 / 1000000"
    and "1004515042390 / 1000000000 \<le> s" "s \<le> 1004515042583 / 1000000000"
  shows "43936496 / 100 < c * s \<and> c * s < 43936497 / 100"
proof -
  have "437390127 / 1000000 * (1004515042390 / 1000000000) \<le> c * s"
    using assms by (intro mult_mono) simp_all
  then have lo: "43936496 / 100 < c * s" by simp
  have "c * s \<le> 437390128 / 1000000 * (1004515042583 / 1000000000)"
    using assms by (intro mult_mono) simp_all
  then have hi: "c * s < 43936497 / 100" by simp
  show ?thesis using lo hi by simp
qed

lemma base_case_bounds:
  "\<exists>bw rw d.
     buy_vs_rent_wealth 800000 (10 / 100) (4 / 100) 30 (45 / 1000) (6 / 100) (2 / 100)
       = Inr (bw, rw, d) \<and>
     144908926 / 100 < bw \<and> bw < 144908927 / 100 \<and>
     89884425 / 100 < rw \<and> rw < 89884427 / 100 \<and>
     55024499 / 100 < d \<and> d < 55024502 / 100"
proof -
  obtain m where m: "monthly_mortgage_payment 720000 (4 / 100) 30 = Inr m"
    and mb: "3437390127 / 1000000 < m" "m < 3437390128 / 1000000"
    using base_payment_bounds by auto
  have loan: "monthly_mortgage_payment (800000 * (1 - 10 / 100)) (4 / 100) 30 = Inr m"
    using m by simp
  define bw :: real where "bw = 800000 * (1 + 2 / 100) ^ nat 30"
  define fd :: real where "fd = 800000 * (10 / 100) * (1 + 6 / 100) ^ nat 30"
  define s :: real where "s = ((1 + 6 / 100 / 12) ^ nat (30 * 12) - 1) / (6 / 100 / 12)"
  define c :: real where "c = m - 800000 * (45 / 1000) / 12"
  have bwv: "fv_lump_sum 800000 (2 / 100) 30 = Inr bw"
    unfolding bw_def by (rule fv_lump_sum_nonneg_years) simp
  have fdv: "fv_lump_sum (800000 * (10 / 100)) (6 / 100) 30 = Inr fd"
    unfolding fd_def by (rule fv_lump_sum_nonneg_years) simp
  have fcv: "fv_monthly_annuity (m - 800000 * (45 / 1000) / 12) (6 / 100) 30 = Inr (c * s)"
    unfolding c_def s_def by (rule fv_monthly_annuity_pos_rate) simp_all
  have res: "buy_vs_rent_wealth 800000 (10 / 100) (4 / 100) 30 (45 / 1000) (6 / 100) (2 / 100)
         = Inr (bw, fd + c * s, bw - (fd + c * s))"
    using loan bwv fdv fcv by (rule buy_vs_rent_wealth_compose)
  have bwb: "144908926 / 100 < bw \<and> bw < 144908927 / 100"
    using home_growth_30 by (simp add: bw_def)
  have fdb: "45947929 / 100 < fd \<and> fd < 45947930 / 100"
    using down_growth_30 by (simp add: fd_def)
  have sb: "1004515042390 / 1000000000 \<le> s \<and> s \<le> 1004515042583 / 1000000000"
    using invest_growth_360 by (simp add: s_def)
  have cb: "437390127 / 1000000 < c \<and> c < 437390128 / 1000000"
    using mb by (simp add: c_def)
  have csb: "43936496 / 100 < c * s \<and> c * s < 43936497 / 100"
    using cb sb by (intro contribution_interval) simp_all
  have "89884425 / 100 < fd + c * s \<and> fd + c * s < 89884427 / 100"
    using fdb csb by linarith
  moreover have "55024499 / 100 < bw - (fd + c * s) \<and> bw - (fd + c * s) < 55024502 / 100"
    using bwb fdb csb by linarith
  ultimately show ?thesis using res bwb by blast
qed

text \<open>
  C9, as the code has it. On the base case (house price 800000, down payment 10 %,
  mortgage rate 4 %, term 30 years, rent yield 4.5 %, investment return 6 %, home
  appreciation 2 %) the monthly mortgage payment on 720000 is 3437.39 to the cent, the
  buyer's wealth is 1,449,089, the renter's wealth is 898,844 and the difference is
  550,245, each to the unit; the difference is positive (buying ahead).
\<close>

theorem base_case_figures:
  "(case monthly_mortgage_payment 720000 (4 / 100) 30 of
      Inl e \<Rightarrow> False
    | Inr m \<Rightarrow> \<bar>m - 343739 / 100\<bar> < 5 / 1000) \<and>
   (case buy_vs_rent_wealth 800000 (10 / 100) (4 / 100) 30 (45 / 1000) (6 / 100) (2 / 100) of
      Inl e \<Rightarrow> False
    | Inr (bw, rw, d) \<Rightarrow>
        \<bar>bw - 1449089\<bar> < 1 / 2 \<and> \<bar>rw - 898844\<bar> < 1 / 2 \<and> \<bar>d - 550245\<bar> < 1 / 2 \<and> 0 < d)"
proof -
  obtain m where m: "monthly_mortgage_payment 720000 (4 / 100) 30 = Inr m"
    and mb: "3437390127 / 1000000 < m" "m < 3437390128 / 1000000"
    using base_payment_bounds by auto
  obtain bw rw d where r:
    "buy_vs_rent_wealth 800000 (10 / 100) (4 / 100) 30 (45 / 1000) (6 / 100) (2 / 100)
       = Inr (bw, rw, d)"
    and b: "144908926 / 100 < bw" "bw < 144908927 / 100"
      "89884425 / 100 < rw" "rw < 89884427 / 100"
      "55024499 / 100 < d" "d < 55024502 / 100"
    using base_case_bounds by auto
  have "\<bar>m - 343739 / 100\<bar> < 5 / 1000" using mb by linarith
  moreover have "\<bar>bw - 1449089\<bar> < 1 / 2" using b(1,2) by linarith
  moreover have "\<bar>rw - 898844\<bar> < 1 / 2" using b(3,4) by linarith
  moreover have "\<bar>d - 550245\<bar> < 1 / 2" using b(5,6) by linarith
  moreover have "0 < d" using b(5) by linarith
  ultimately show ?thesis by (simp only: m r sum.case prod.case simp_thms)
qed

text \<open>
  C9, as the claim states it, gives figures the code does not produce: the payment is
  more than 0.87 above 3436.52, the buyer's wealth more than 839 below 1,449,929, the
  renter's wealth more than 2171 above 896,673, and the difference more than 3010
  below 553,256.
\<close>

theorem base_case_figures_counterexample:
  "(case monthly_mortgage_payment 720000 (4 / 100) 30 of
      Inl e \<Rightarrow> False
    | Inr m \<Rightarrow> 87 / 100 < m - 343652 / 100) \<and>
   (case buy_vs_rent_wealth 800000 (10 / 100) (4 / 100) 30 (45 / 1000) (6 / 100) (2 / 100) of
      Inl e \<Rightarrow> False
    | Inr (bw, rw, d) \<Rightarrow>
        839 < 1449929 - bw \<and> 2171 < rw - 896673 \<and> 3010 < 553256 - d)"
proof -
  obtain m where m: "monthly_mortgage_payment 720000 (4 / 100) 30 = Inr m"
    and mb: "3437390127 / 1000000 < m" "m < 3437390128 / 1000000"
    using base_payment_bounds by auto
  obtain bw rw d where r:
    "buy_vs_rent_wealth 800000 (10 / 100) (4 / 100) 30 (45 / 1000) (6 / 100) (2 / 100)
       = Inr (bw, rw, d)"
    and b: "144908926 / 100 < bw" "bw < 144908927 / 100"
      "89884425 / 100 < rw" "rw < 89884427 / 100"
      "55024499 / 100 < d" "d < 55024502 / 100"
    using base_case_bounds by auto
  have "87 / 100 < m - 343652 / 100" using mb by linarith
  moreover have "839 < 1449929 - bw" using b(2) by linarith
  moreover have "2171 < rw - 896673" using b(3) by linarith
  moreover have "3010 < 553256 - d" using b(6) by linarith
  ultimately show ?thesis by (simp only: m r sum.case prod.case simp_thms)
qed

subsection \<open>The renter's wealth and the investment return\<close>

lemma growth_sum_strict_mono:
  fixes a b :: real
  assumes "0 \<le> a" "a < b" "2 \<le> n"
  shows "(\<Sum>k<n. (1 + a) ^ k) < (\<Sum>k<n. (1 + b) ^ k)"
proof (rule sum_strict_mono_ex1)
  show "finite {..<n}" by simp
  show "\<forall>k\<in>{..<n}. (1 + a) ^ k \<le> (1 + b) ^ k"
    using assms by (simp add: power_mono)
  have "1 \<in> {..<n}" using assms by simp
  moreover have "(1 + a) ^ (1::nat) < (1 + b) ^ (1::nat)" using assms by simp
  ultimately show "\<exists>k\<in>{..<n}. (1 + a) ^ k < (1 + b) ^ k" by blast
qed

lemma rent_wealth_terms_strict_mono:
  fixes d c :: real
  assumes "0 \<le> d" "0 \<le> c" "0 < d \<or> 0 < c" "p1 < p2" "s1 < s2"
  shows "d * p1 + c * s1 < d * p2 + c * s2"
proof -
  have a: "d * p1 \<le> d * p2" using assms by (simp add: mult_left_mono)
  have b: "c * s1 \<le> c * s2" using assms by (simp add: mult_left_mono)
  from assms(3) show ?thesis
  proof
    assume "0 < d"
    then have "d * p1 < d * p2" using assms by simp
    then show ?thesis using b by linarith
  next
    assume "0 < c"
    then have "c * s1 < c * s2" using assms by simp
    then show ?thesis using a by linarith
  qed
qed

lemma rent_wealth_growth_strict:
  assumes "0 < hp" "0 \<le> dp" "0 \<le> mr" "0 < ty" "0 \<le> i1" "i1 < i2"
    and "monthly_mortgage_payment (hp * (1 - dp)) mr ty = Inr m"
    and "hp * ry / 12 \<le> m"
    and "0 < dp \<or> hp * ry / 12 < m"
  shows "\<exists>b1 r1 d1 b2 r2 d2.
           buy_vs_rent_wealth hp dp mr ty ry i1 ha = Inr (b1, r1, d1) \<and>
           buy_vs_rent_wealth hp dp mr ty ry i2 ha = Inr (b2, r2, d2) \<and>
           r1 < r2"
proof -
  have n: "0 < nat ty" "2 \<le> nat (ty * 12)" using assms by simp_all
  have p: "(1 + i1) ^ nat ty < (1 + i2) ^ nat ty"
    using assms n by (simp add: power_strict_mono)
  have "0 \<le> i1 / 12" "i1 / 12 < i2 / 12" using assms by simp_all
  then have s: "(\<Sum>k<nat (ty * 12). (1 + i1 / 12) ^ k) < (\<Sum>k<nat (ty * 12). (1 + i2 / 12) ^ k)"
    using n(2) by (rule growth_sum_strict_mono)
  have d: "0 \<le> hp * dp" using assms by simp
  have c: "0 \<le> m - hp * ry / 12" using assms by simp
  have dc: "0 < hp * dp \<or> 0 < m - hp * ry / 12" using assms by auto
  have lt: "hp * dp * (1 + i1) ^ nat ty + (m - hp * ry / 12) * (\<Sum>k<nat (ty * 12). (1 + i1 / 12) ^ k)
          < hp * dp * (1 + i2) ^ nat ty + (m - hp * ry / 12) * (\<Sum>k<nat (ty * 12). (1 + i2 / 12) ^ k)"
    using d c dc p s by (rule rent_wealth_terms_strict_mono)
  show ?thesis
    using buy_vs_rent_wealth_returns [OF assms(3,4), of hp dp ry i1 ha]
      buy_vs_rent_wealth_returns [OF assms(3,4), of hp dp ry i2 ha] lt assms(7)
    by auto
qed


text \<open>
  C2, as the code has it. The monthly contribution is the mortgage payment minus the
  monthly rent, and it may be negative. Over the real numbers the renter's wealth is
  strictly increasing in the investment return when the contribution is not negative
  and the down payment or the contribution is positive (\<open>rent_wealth_growth_strict\<close>).
  In double precision it is so where rounding cannot decide it; it is stated for the
  values the sidebar can deliver: for sidebar values \<open>s\<close> whose mortgage payment is at
  least the monthly rent, with a down payment fraction of at least 1 % (one slider
  step) or a payment at least 0.01 above the rent, and a second investment return at
  least 0.1 % (one slider step) above that of \<open>s\<close> and at most 15 %, both evaluations
  return, and the rent wealth at the higher return is strictly larger.
\<close>

theorem rent_wealth_strictly_increasing:
  assumes "sidebar_values s"
    and "invest_return s + 1 / 1000 \<le> i2" "i2 \<le> 15 / 100"
    and "monthly_mortgage_payment (house_price s * (1 - down_pct s)) (mortgage_rate s)
           (term_years s) = Inr m"
    and "house_price s * rent_yield s / 12 \<le> m"
    and "1 / 100 \<le> down_pct s \<or> house_price s * rent_yield s / 12 + 1 / 100 \<le> m"
  shows "\<exists>b1 r1 d1 b2 r2 d2.
           base_case s = Inr (b1, r1, d1) \<and>
           base_case (s\<lparr>invest_return := i2\<rparr>) = Inr (b2, r2, d2) \<and>
           r1 < r2"
proof -
  have r: "0 < house_price s" "0 \<le> down_pct s" "0 \<le> mortgage_rate s" "0 < term_years s"
    "0 \<le> invest_return s"
    using assms(1) by (auto simp: sidebar_values_def)
  have lt: "invest_return s < i2" using assms(2) by simp
  have pos: "0 < down_pct s \<or> house_price s * rent_yield s / 12 < m"
    using assms(6) by auto
  show ?thesis
    using rent_wealth_growth_strict [OF r lt assms(4,5) pos, of "home_appreciation s"]
    by (simp add: base_case_def)
qed

theorem rent_wealth_strictly_increasing_witness:
  "(let s = \<lparr>house_price = 120000, down_pct = 0, mortgage_rate = 0, term_years = 5,
             rent_yield = 0, invest_return = 0, home_appreciation = 0\<rparr>
    in sidebar_values s \<and> invest_return s + 1 / 1000 \<le> 12 / 100 \<and>
       (12 / 100 :: real) \<le> 15 / 100 \<and>
       monthly_mortgage_payment (house_price s * (1 - down_pct s)) (mortgage_rate s)
         (term_years s) = Inr 2000 \<and>
       house_price s * rent_yield s / 12 + 1 / 100 \<le> 2000 \<and>
       (\<exists>b1 r1 d1 b2 r2 d2.
           base_case s = Inr (b1, r1, d1) \<and>
           base_case (s\<lparr>invest_return := 12 / 100\<rparr>) = Inr (b2, r2, d2) \<and>
           r1 < r2))"
proof -
  let ?s = "\<lparr>house_price = 120000, down_pct = 0, mortgage_rate = 0, term_years = 5,
             rent_yield = 0, invest_return = 0, home_appreciation = 0\<rparr>"
  have v: "sidebar_values ?s" by (simp add: sidebar_values_def)
  have m: "monthly_mortgage_payment (house_price ?s * (1 - down_pct ?s)) (mortgage_rate ?s)
             (term_years ?s) = Inr 2000"
    by (simp add: run_defs)
  have i: "invest_return ?s + 1 / 1000 \<le> 12 / 100" "(12 / 100 :: real) \<le> 15 / 100"
    by simp_all
  have c: "house_price ?s * rent_yield ?s / 12 \<le> 2000" by simp
  have c': "1 / 100 \<le> down_pct ?s \<or> house_price ?s * rent_yield ?s / 12 + 1 / 100 \<le> 2000"
    by simp
  show ?thesis
    using v m i rent_wealth_strictly_increasing [OF v i m c c']
    by (simp add: Let_def)
qed

lemma negative_contribution_interval:
  fixes c s :: real
  assumes "c < - 3229276538 / 1000000" "1004515042390 / 1000000000 \<le> s"
  shows "c * s < - 3243856"
proof -
  have "c * s \<le> - 3229276538 / 1000000 * s"
    using assms by (intro mult_right_mono) simp_all
  also have "\<dots> \<le> - 3229276538 / 1000000 * (1004515042390 / 1000000000)"
    using assms by (intro mult_left_mono_neg) simp_all
  also have "\<dots> < - 3243856" by simp
  finally show ?thesis .
qed

text \<open>
  C2, as the claim states it, fails where the rent exceeds the mortgage payment. On
  the base case of the page with the rent yield at 10 % (house price 800000, down
  payment 10 %, mortgage rate 4 %, term 30 years, home appreciation 2 %) the mortgage
  payment is about 3437.39 and the rent 6666.67 a month, so the contribution is
  negative; the renter's wealth is above \<open>- 1082540\<close> at an investment return of 0 and
  below \<open>- 2784376\<close> at an investment return of 6 %.
\<close>

theorem rent_wealth_not_increasing_counterexample:
  "(case buy_vs_rent_wealth 800000 (10 / 100) (4 / 100) 30 (10 / 100) 0 (2 / 100) of
      Inl e \<Rightarrow> False
    | Inr (bw1, rw1, d1) \<Rightarrow>
       (case buy_vs_rent_wealth 800000 (10 / 100) (4 / 100) 30 (10 / 100) (6 / 100) (2 / 100) of
          Inl e \<Rightarrow> False
        | Inr (bw2, rw2, d2) \<Rightarrow> rw2 < rw1 \<and> - 1082540 < rw1 \<and> rw2 < - 2784376))"
proof -
  obtain m where m: "monthly_mortgage_payment 720000 (4 / 100) 30 = Inr m"
    and mb: "3437390127 / 1000000 < m" "m < 3437390128 / 1000000"
    using base_payment_bounds by auto
  have loan: "monthly_mortgage_payment (800000 * (1 - 10 / 100)) (4 / 100) 30 = Inr m"
    using m by simp
  define bw :: real where "bw = 800000 * (1 + 2 / 100) ^ nat 30"
  define fd :: real where "fd = 800000 * (10 / 100) * (1 + 6 / 100) ^ nat 30"
  define s :: real where "s = ((1 + 6 / 100 / 12) ^ nat (30 * 12) - 1) / (6 / 100 / 12)"
  define c :: real where "c = m - 800000 * (10 / 100) / 12"
  have bwv: "fv_lump_sum 800000 (2 / 100) 30 = Inr bw"
    unfolding bw_def by (rule fv_lump_sum_nonneg_years) simp
  have fd0: "fv_lump_sum (800000 * (10 / 100)) 0 30 = Inr 80000"
    by (simp add: fv_lump_sum_nonneg_years)
  have fc0: "fv_monthly_annuity (m - 800000 * (10 / 100) / 12) 0 30 = Inr (c * 360)"
    by (simp add: fv_monthly_annuity_nonneg_years c_def)
  have r0: "buy_vs_rent_wealth 800000 (10 / 100) (4 / 100) 30 (10 / 100) 0 (2 / 100)
         = Inr (bw, 80000 + c * 360, bw - (80000 + c * 360))"
    using loan bwv fd0 fc0 by (rule buy_vs_rent_wealth_compose)
  have fdv: "fv_lump_sum (800000 * (10 / 100)) (6 / 100) 30 = Inr fd"
    unfolding fd_def by (rule fv_lump_sum_nonneg_years) simp
  have fcv: "fv_monthly_annuity (m - 800000 * (10 / 100) / 12) (6 / 100) 30 = Inr (c * s)"
    unfolding c_def s_def by (rule fv_monthly_annuity_pos_rate) simp_all
  have r6: "buy_vs_rent_wealth 800000 (10 / 100) (4 / 100) 30 (10 / 100) (6 / 100) (2 / 100)
         = Inr (bw, fd + c * s, bw - (fd + c * s))"
    using loan bwv fdv fcv by (rule buy_vs_rent_wealth_compose)
  have fdb: "fd < 45947930 / 100"
    using down_growth_30 by (simp add: fd_def)
  have sb: "1004515042390 / 1000000000 \<le> s"
    using invest_growth_360 by (simp add: s_def)
  have cb: "- 3229276540 / 1000000 < c" "c < - 3229276538 / 1000000"
    using mb by (simp_all add: c_def)
  have cs: "c * s < - 3243856" using cb(2) sb by (rule negative_contribution_interval)
  have lo: "- 1082540 < 80000 + c * 360" using cb(1) by linarith
  have hi: "fd + c * s < - 2784376" using fdb cs by linarith
  have "fd + c * s < 80000 + c * 360" using lo hi by linarith
  then show ?thesis using lo hi by (simp only: r0 r6 sum.case prod.case simp_thms)
qed


subsection \<open>The cells of the sensitivity tables\<close>

text \<open>The axis values of the page.\<close>

lemma mr_grid_values:
  "mr_grid = [3 / 100, 35 / 1000, 4 / 100, 45 / 1000, 5 / 100, 55 / 1000, 6 / 100]"
  by (simp add: mr_grid_def arange_def upt_rec)

lemma ir_grid_values:
  "ir_grid = [4 / 100, 5 / 100, 6 / 100, 7 / 100, 8 / 100, 9 / 100, 10 / 100]"
  by (simp add: ir_grid_def arange_def upt_rec)

lemma ap_grid_values:
  "ap_grid = [0, 5 / 1000, 1 / 100, 15 / 1000, 2 / 100, 25 / 1000, 3 / 100, 35 / 1000,
              4 / 100, 45 / 1000, 5 / 100]"
  by (simp add: ap_grid_def arange_def upt_rec)

lemma ry_grid_values: "ry_grid = mr_grid"
  by (simp add: ry_grid_def mr_grid_def)

text \<open>Unfolding these evaluates a table and the formatting of its cells.\<close>

lemmas fmt_defs = format_rm_def round_half_even_def thousands_def digit_char_def str_nat.simps

lemmas table_defs = data_A_on_def data_B_on_def data_C_on_def cell_A_def cell_B_def cell_C_def

lemma fill_row_cells:
  assumes "\<forall>x\<in>set xs. \<exists>v. f x = Inr v"
  shows "\<exists>row. fill_row f xs = Inr row \<and> length row = length xs \<and>
           (\<forall>j<length xs. \<exists>bw rw d. f (xs ! j) = Inr (bw, rw, d) \<and> row ! j = format_rm d)"
  using assms
proof (induction xs)
  case Nil
  then show ?case by simp
next
  case (Cons x xs)
  then obtain row where row: "fill_row f xs = Inr row" "length row = length xs"
    "\<forall>j<length xs. \<exists>bw rw d. f (xs ! j) = Inr (bw, rw, d) \<and> row ! j = format_rm d"
    by auto
  obtain bw0 rw0 d0 where v: "f x = Inr (bw0, rw0, d0)"
    using Cons.prems by (metis list.set_intros(1) prod_cases3)
  have "fill_row f (x # xs) = Inr (format_rm d0 # row)"
    using v row by simp
  moreover have "\<forall>j<length (x # xs). \<exists>bw rw d. f ((x # xs) ! j) = Inr (bw, rw, d) \<and>
                   (format_rm d0 # row) ! j = format_rm d"
  proof (intro allI impI)
    fix j assume "j < length (x # xs)"
    then show "\<exists>bw rw d. f ((x # xs) ! j) = Inr (bw, rw, d) \<and>
                 (format_rm d0 # row) ! j = format_rm d"
      using v row(3) by (cases j) auto
  qed
  moreover have "length (format_rm d0 # row) = length (x # xs)" using row(2) by simp
  ultimately show ?case by blast
qed

lemma fill_table_cells:
  assumes "\<forall>r\<in>set rs. \<forall>c\<in>set cs. \<exists>v. f r c = Inr v"
  shows "\<exists>g. fill_table f rs cs = Inr g \<and> length g = length rs \<and>
           (\<forall>i<length rs. length (g ! i) = length cs \<and>
              (\<forall>j<length cs. \<exists>bw rw d.
                 f (rs ! i) (cs ! j) = Inr (bw, rw, d) \<and> g ! i ! j = format_rm d))"
  using assms
proof (induction rs)
  case Nil
  then show ?case by simp
next
  case (Cons r rs)
  then obtain g where g: "fill_table f rs cs = Inr g" "length g = length rs"
    "\<forall>i<length rs. length (g ! i) = length cs \<and>
       (\<forall>j<length cs. \<exists>bw rw d.
          f (rs ! i) (cs ! j) = Inr (bw, rw, d) \<and> g ! i ! j = format_rm d)"
    by auto
  have "\<forall>c\<in>set cs. \<exists>v. f r c = Inr v" using Cons.prems by simp
  then obtain row where row: "fill_row (f r) cs = Inr row" "length row = length cs"
    "\<forall>j<length cs. \<exists>bw rw d. f r (cs ! j) = Inr (bw, rw, d) \<and> row ! j = format_rm d"
    using fill_row_cells [of cs "f r"] by auto
  have "fill_table f (r # rs) cs = Inr (row # g)"
    using row g by simp
  moreover have "\<forall>i<length (r # rs). length ((row # g) ! i) = length cs \<and>
       (\<forall>j<length cs. \<exists>bw rw d.
          f ((r # rs) ! i) (cs ! j) = Inr (bw, rw, d) \<and> (row # g) ! i ! j = format_rm d)"
  proof (intro allI impI)
    fix i assume "i < length (r # rs)"
    then show "length ((row # g) ! i) = length cs \<and>
       (\<forall>j<length cs. \<exists>bw rw d.
          f ((r # rs) ! i) (cs ! j) = Inr (bw, rw, d) \<and> (row # g) ! i ! j = format_rm d)"
      using row(2,3) g(3) by (cases i) auto
  qed
  moreover have "length (row # g) = length (r # rs)" using g(2) by simp
  ultimately show ?case by blast
qed

lemma buy_vs_rent_wealth_total:
  assumes "0 \<le> mrate" "0 < tyears"
  shows "\<exists>v. buy_vs_rent_wealth hprice dpct mrate tyears ryield ireturn happr = Inr v"
  using buy_vs_rent_wealth_returns [OF assms, of hprice dpct ryield ireturn happr] by blast

text \<open>
  C6, as the code has it. The page has no table builder that takes the names of the two
  swept parameters: it fills three tables, A (rows investment return, columns mortgage
  rate), B (rows investment return, columns home appreciation) and C (rows mortgage
  rate, columns rent yield). For any sidebar values with a positive term and mortgage
  rates that are not negative, and any axis values, each table is built, has one row
  per row value and one cell per column value, and the cell at \<open>[i][j]\<close> is the string
  \<open>format_rm d\<close>, where \<open>d\<close> is the difference returned by \<open>buy_vs_rent_wealth\<close> on the
  sidebar values with exactly the two swept parameters replaced by the \<open>i\<close>-th row value
  and the \<open>j\<close>-th column value. A table with one row value and one column value has
  that single cell.
\<close>

theorem sensitivity_table_cells:
  assumes "0 < term_years s" "0 \<le> mortgage_rate s" "\<forall>mr\<in>set mrs. 0 \<le> mr"
  shows "\<exists>gA gB gC.
     data_A_on s irs mrs = Inr gA \<and> length gA = length irs \<and>
     (\<forall>i<length irs. length (gA ! i) = length mrs \<and>
        (\<forall>j<length mrs. \<exists>bw rw d.
           buy_vs_rent_wealth (house_price s) (down_pct s) (mrs ! j) (term_years s)
             (rent_yield s) (irs ! i) (home_appreciation s) = Inr (bw, rw, d) \<and>
           gA ! i ! j = format_rm d)) \<and>
     data_B_on s irs aps = Inr gB \<and> length gB = length irs \<and>
     (\<forall>i<length irs. length (gB ! i) = length aps \<and>
        (\<forall>j<length aps. \<exists>bw rw d.
           buy_vs_rent_wealth (house_price s) (down_pct s) (mortgage_rate s) (term_years s)
             (rent_yield s) (irs ! i) (aps ! j) = Inr (bw, rw, d) \<and>
           gB ! i ! j = format_rm d)) \<and>
     data_C_on s mrs rys = Inr gC \<and> length gC = length mrs \<and>
     (\<forall>i<length mrs. length (gC ! i) = length rys \<and>
        (\<forall>j<length rys. \<exists>bw rw d.
           buy_vs_rent_wealth (house_price s) (down_pct s) (mrs ! i) (term_years s)
             (rys ! j) (invest_return s) (home_appreciation s) = Inr (bw, rw, d) \<and>
           gC ! i ! j = format_rm d))"
proof -
  have "\<forall>ir\<in>set irs. \<forall>mr\<in>set mrs. \<exists>v. cell_A s ir mr = Inr v"
    using assms buy_vs_rent_wealth_total unfolding cell_A_def by blast
  from fill_table_cells [OF this]
  have A: "\<exists>gA. data_A_on s irs mrs = Inr gA \<and> length gA = length irs \<and>
     (\<forall>i<length irs. length (gA ! i) = length mrs \<and>
        (\<forall>j<length mrs. \<exists>bw rw d.
           buy_vs_rent_wealth (house_price s) (down_pct s) (mrs ! j) (term_years s)
             (rent_yield s) (irs ! i) (home_appreciation s) = Inr (bw, rw, d) \<and>
           gA ! i ! j = format_rm d))"
    by (simp only: data_A_on_def cell_A_def)
  have "\<forall>ir\<in>set irs. \<forall>ap\<in>set aps. \<exists>v. cell_B s ir ap = Inr v"
    using assms buy_vs_rent_wealth_total unfolding cell_B_def by blast
  from fill_table_cells [OF this]
  have B: "\<exists>gB. data_B_on s irs aps = Inr gB \<and> length gB = length irs \<and>
     (\<forall>i<length irs. length (gB ! i) = length aps \<and>
        (\<forall>j<length aps. \<exists>bw rw d.
           buy_vs_rent_wealth (house_price s) (down_pct s) (mortgage_rate s) (term_years s)
             (rent_yield s) (irs ! i) (aps ! j) = Inr (bw, rw, d) \<and>
           gB ! i ! j = format_rm d))"
    by (simp only: data_B_on_def cell_B_def)
  have "\<forall>mr\<in>set mrs. \<forall>ry\<in>set rys. \<exists>v. cell_C s mr ry = Inr v"
    using assms buy_vs_rent_wealth_total unfolding cell_C_def by blast
  from fill_table_cells [OF this]
  have C: "\<exists>gC. data_C_on s mrs rys = Inr gC \<and> length gC = length mrs \<and>
     (\<forall>i<length mrs. length (gC ! i) = length rys \<and>
        (\<forall>j<length rys. \<exists>bw rw d.
           buy_vs_rent_wealth (house_price s) (down_pct s) (mrs ! i) (term_years s)
             (rys ! j) (invest_return s) (home_appreciation s) = Inr (bw, rw, d) \<and>
           gC ! i ! j = format_rm d))"
    by (simp only: data_C_on_def cell_C_def)
  from A B C show ?thesis by blast
qed

theorem sensitivity_table_cells_witness:
  "(let s = \<lparr>house_price = 1200, down_pct = 0, mortgage_rate = 0, term_years = 1,
             rent_yield = 0, invest_return = 0, home_appreciation = 1\<rparr>
    in 0 < term_years s \<and> 0 \<le> mortgage_rate s \<and> (\<forall>mr\<in>set [0 :: real]. 0 \<le> mr) \<and>
       data_A_on s [0] [0] = Inr [[''RM 1,200'']] \<and>
       data_B_on s [0] [0] = Inr [[''RM 0'']] \<and>
       data_C_on s [0] [1 / 2] = Inr [[''RM 1,800'']])"
  using sensitivity_table_cells
    [of "\<lparr>house_price = 1200, down_pct = 0, mortgage_rate = 0, term_years = 1,
           rent_yield = 0, invest_return = 0, home_appreciation = 1\<rparr>"
        "[0]" "[0]" "[0]" "[1 / 2]"]
  by (simp add: table_defs run_defs fmt_defs)

text \<open>
  C6, as the claim states it, fails: a cell is not the difference but its rendering as
  a string. With house price 1200, no down payment, mortgage rate 0, a term of one
  year, rent yield 0 and investment return 0, the difference is \<open>0\<close> at home
  appreciation 0 and \<open>1/4\<close> at home appreciation 1/4800, and the single cell of
  table A is \<open>RM 0\<close> in both cases.
\<close>

theorem table_cell_is_formatted_counterexample:
  "buy_vs_rent_wealth 1200 0 0 1 0 0 0 = Inr (1200, 1200, 0) \<and>
   buy_vs_rent_wealth 1200 0 0 1 0 0 (1 / 4800) = Inr (4801 / 4, 1200, 1 / 4) \<and>
   data_A_on \<lparr>house_price = 1200, down_pct = 0, mortgage_rate = 0, term_years = 1,
              rent_yield = 0, invest_return = 0, home_appreciation = 0\<rparr> [0] [0]
     = Inr [[''RM 0'']] \<and>
   data_A_on \<lparr>house_price = 1200, down_pct = 0, mortgage_rate = 0, term_years = 1,
              rent_yield = 0, invest_return = 0, home_appreciation = 1 / 4800\<rparr> [0] [0]
     = Inr [[''RM 0'']]"
  by (simp add: table_defs run_defs fmt_defs)

end
